theory Spec2Isabelle
  imports Complex_Main
begin

section \<open>Lane types and lanes (traffic.py, lines 29-58)\<close>

text \<open>
  \<^verbatim>\<open>class LaneType\<close> holds two integer constants. The same number is the tag of the
  lane class and the number of vehicles that leave per tick, so a lane's type is kept
  as the integer the source stores.
\<close>

definition CAR :: int where
  "CAR = 1"

definition BIKE :: int where
  "BIKE = 2"

text \<open>
  A \<^verbatim>\<open>Lane\<close> object. \<open>vehicle_num\<close> is a Python integer (unbounded). \<open>business\<close> is a
  Python float; it is modelled as a real number, and is only ever compared with the
  bounds of the Poisson sampler.
\<close>

record Lane =
  green_light :: bool
  vehicle_num :: int
  lane_type :: int
  business :: real

text \<open>\<^verbatim>\<open>Lane.__init__\<close>: no check of either argument.\<close>

definition Lane_init :: "int \<Rightarrow> real \<Rightarrow> Lane" where
  "Lane_init lt b = \<lparr>green_light = False, vehicle_num = 0, lane_type = lt, business = b\<rparr>"

text \<open>
  The source has no \<^verbatim>\<open>raise\<close> of its own. The exceptions that can escape are those of
  the operations it calls: \<^verbatim>\<open>%\<close> with a zero modulus, \<^verbatim>\<open>np.random.poisson\<close> with a rate it
  rejects, a row assignment of the wrong width, a dictionary lookup of an absent key, and
  what \<^verbatim>\<open>open\<close> and \<^verbatim>\<open>json.load\<close> raise beside the \<^verbatim>\<open>JSONDecodeError\<close> that is caught:
  \<^verbatim>\<open>UnicodeDecodeError\<close> on bytes that are not text in the expected encoding,
  \<^verbatim>\<open>OSError\<close> on a path that cannot be opened for reading, \<^verbatim>\<open>RecursionError\<close> on a
  document nested too deeply.
\<close>

datatype error =
  ValueError | ZeroDivisionError | KeyError | UnicodeDecodeError | OSError | RecursionError

text \<open>
  \<^verbatim>\<open>np.random.poisson(lam)\<close> raises \<^verbatim>\<open>ValueError\<close> for \<open>lam < 0\<close> and for a \<open>lam\<close> above
  numpy's bound (9.223372006484771e+18); otherwise it returns a draw. The draw itself is
  an input of the model: the second argument is the number the sampler returns when it
  returns.
\<close>

definition POISSON_LAM_MAX :: real where
  "POISSON_LAM_MAX = 9223372006484771000"

definition poisson :: "real \<Rightarrow> int \<Rightarrow> error + int" where
  "poisson lam k = (if lam < 0 \<or> POISSON_LAM_MAX < lam then Inl ValueError else Inr k)"

text \<open>
  \<^verbatim>\<open>Lane.update_vehicle_number\<close>, with the draw of this call as first argument. The
  arrivals are added first; the departure is decided on the sum.
\<close>

definition update_vehicle_number :: "int \<Rightarrow> Lane \<Rightarrow> error + Lane" where
  "update_vehicle_number k l =
     (case poisson (business l) k of
        Inl e \<Rightarrow> Inl e
      | Inr a \<Rightarrow>
          (let v = vehicle_num l + a in
           if green_light l \<and> v > 0 then
             (if lane_type l = BIKE \<and> v = 1
              then Inr (l\<lparr>vehicle_num := v - 1\<rparr>)
              else Inr (l\<lparr>vehicle_num := v - lane_type l\<rparr>))
           else Inr (l\<lparr>vehicle_num := v\<rparr>)))"

section \<open>Configuration (traffic.py, lines 17-27 and 61-110)\<close>

text \<open>
  The module-level constants are rebound by \<^verbatim>\<open>JsonReader.parse\<close>, so they are a record
  that \<open>parse\<close> takes and returns. \<open>parse\<close> stores whatever number the file holds, an
  integer or a float, without a check. A Python number is modelled as the real number it
  denotes: the arithmetic of integers is exact, and the arithmetic of floats is taken to be
  exact too.
\<close>

record Globals =
  GREEN_CARS :: real
  GREEN_BIKES :: real
  RED_TIME_ALL :: real
  CYCLE_LENGTH :: real
  SIM_LENGTH :: real

definition module_globals :: Globals where
  "module_globals =
     \<lparr>GREEN_CARS = 30, GREEN_BIKES = 10, RED_TIME_ALL = 10,
      CYCLE_LENGTH = 30 + 10 + 2 * 10, SIM_LENGTH = 0.1\<rparr>"

text \<open>
  The JSON document, as far as \<open>parse\<close> reads it: a dictionary in which each of the
  five keys may be absent, and whose lane descriptors are dictionaries in which
  \<^verbatim>\<open>"type"\<close> and \<^verbatim>\<open>"business"\<close> may be absent. The three durations and the length of the
  simulation are JSON numbers, integers or not; the type of a lane is a string and its
  business a number (\<^verbatim>\<open>Lane.__init__\<close> annotates it as a float).
\<close>

record lane_json =
  j_type :: "string option"
  j_business :: "real option"

record config_json =
  j_GREEN_CARS :: "real option"
  j_GREEN_BIKES :: "real option"
  j_RED_TIME_ALL :: "real option"
  j_SIM_LENGTH :: "real option"
  j_lanes :: "lane_json list option"

text \<open>
  What \<^verbatim>\<open>path.exists\<close>, \<^verbatim>\<open>open\<close> and \<^verbatim>\<open>json.load\<close> find: no file (\<open>Missing\<close>); a file on
  which the decoder raises \<^verbatim>\<open>JSONDecodeError\<close>, the one exception the source catches
  (\<open>Malformed\<close>); a path on which \<^verbatim>\<open>open\<close> or \<^verbatim>\<open>json.load\<close> raises another exception,
  which nothing catches (\<open>Failing\<close>, with the exception: \<open>UnicodeDecodeError\<close> for a file
  that is not UTF-8 text, \<open>OSError\<close> for a directory or a file that may not be read,
  \<open>RecursionError\<close>); or a decoded document (\<open>Loaded\<close>).
\<close>

datatype config_source = Missing | Malformed | Failing error | Loaded config_json

text \<open>The loop over \<^verbatim>\<open>j["lanes"]\<close> (lines 102-104).\<close>

fun parse_lanes :: "lane_json list \<Rightarrow> Lane list \<Rightarrow> error + Lane list" where
  "parse_lanes [] lanes = Inr lanes"
| "parse_lanes (lane # rest) lanes =
     (case j_type lane of
        None \<Rightarrow> Inl KeyError
      | Some t \<Rightarrow>
          (let lt = (if t = ''car'' then CAR else BIKE) in
           case j_business lane of
             None \<Rightarrow> Inl KeyError
           | Some b \<Rightarrow> parse_lanes rest (lanes @ [Lane_init lt b])))"

definition parse :: "Globals \<Rightarrow> config_source \<Rightarrow> error + (Globals \<times> Lane list)" where
  "parse g src =
     (case src of
        Missing \<Rightarrow> Inr (g, [])
      | Malformed \<Rightarrow> Inr (g, [])
      | Failing e \<Rightarrow> Inl e
      | Loaded j \<Rightarrow>
          (let gc = (case j_GREEN_CARS j of Some v \<Rightarrow> v | None \<Rightarrow> GREEN_CARS g);
               gb = (case j_GREEN_BIKES j of Some v \<Rightarrow> v | None \<Rightarrow> GREEN_BIKES g);
               rt = (case j_RED_TIME_ALL j of Some v \<Rightarrow> v | None \<Rightarrow> RED_TIME_ALL g);
               sl = (case j_SIM_LENGTH j of Some v \<Rightarrow> v | None \<Rightarrow> SIM_LENGTH g);
               g' = \<lparr>GREEN_CARS = gc, GREEN_BIKES = gb, RED_TIME_ALL = rt,
                     CYCLE_LENGTH = gc + gb + 2 * rt, SIM_LENGTH = sl\<rparr>
           in case j_lanes j of
                None \<Rightarrow> Inr (g', [])
              | Some ds \<Rightarrow>
                  (case parse_lanes ds [] of
                     Inl e \<Rightarrow> Inl e
                   | Inr lanes \<Rightarrow> Inr (g', lanes))))"

section \<open>The simulation (traffic.py, lines 113-226)\<close>

text \<open>
  A cell of an observation row is a light or a queue length. The data frame is its list
  of column labels (\<open>columns\<close>, from which it is created) and its rows, each with its
  index label, in the order they were added.
\<close>

datatype cell = Light bool | Count int

record Main_self =
  columns :: "string list"
  lanes :: "Lane list"
  traffic_data :: "(int \<times> cell list) list"

text \<open>
  \<open>self.bikes\<close> and \<open>self.cars\<close> are lists of the very objects \<open>self.lanes\<close> holds,
  so they show every later mutation; \<open>lane_type\<close> is never assigned after construction.
  They are therefore the two filters of the current lane list.
\<close>

definition bikes :: "Main_self \<Rightarrow> Lane list" where
  "bikes self = filter (\<lambda>a. lane_type a = BIKE) (lanes self)"

definition cars :: "Main_self \<Rightarrow> Lane list" where
  "cars self = filter (\<lambda>a. lane_type a = CAR) (lanes self)"

text \<open>\<^verbatim>\<open>Main.set_lanes\<close>.\<close>

fun set_lanes :: "int \<Rightarrow> bool \<Rightarrow> Lane list \<Rightarrow> Lane list" where
  "set_lanes lt status [] = []"
| "set_lanes lt status (lane # rest) =
     (if lane_type lane = lt then lane\<lparr>green_light := status\<rparr> else lane)
       # set_lanes lt status rest"

text \<open>
  Python's \<^verbatim>\<open>%\<close> on numbers, for a modulus other than 0: the remainder of the floored
  division, which takes the sign of the modulus. On integers it is \<open>mod\<close>.
\<close>

definition py_mod :: "real \<Rightarrow> real \<Rightarrow> real" where
  "py_mod x y = x - y * of_int \<lfloor>x / y\<rfloor>"

text \<open>
  The first part of \<^verbatim>\<open>Main.loop\<close> (lines 179-190): the phase of the tick and the chain
  of comparisons that switches the lights. \<^verbatim>\<open>%\<close> raises for a zero modulus, integer or
  float. The tick is a Python number here; \<open>loop\<close> passes the integer it is called with.
\<close>

definition loop_lights :: "Globals \<Rightarrow> real \<Rightarrow> Lane list \<Rightarrow> error + Lane list" where
  "loop_lights g iter_count ls =
     (if CYCLE_LENGTH g = 0 then Inl ZeroDivisionError
      else
        (let ticks = py_mod iter_count (CYCLE_LENGTH g) in
         if ticks = 0 then Inr (set_lanes BIKE True (set_lanes CAR False ls))
         else if ticks = GREEN_BIKES g then Inr (set_lanes BIKE False ls)
         else if ticks = GREEN_BIKES g + RED_TIME_ALL g then Inr (set_lanes CAR True ls)
         else if ticks = GREEN_BIKES g + RED_TIME_ALL g + GREEN_CARS g
           then Inr (set_lanes CAR False ls)
         else Inr ls))"

text \<open>
  The loop over the lanes in \<^verbatim>\<open>Main.loop\<close> (lines 193-194). \<open>d i\<close> is the draw of the
  lane at position \<open>i\<close> in this tick; the second argument is the position of the head
  of the list.
\<close>

fun update_lanes :: "(nat \<Rightarrow> int) \<Rightarrow> nat \<Rightarrow> Lane list \<Rightarrow> error + Lane list" where
  "update_lanes d i [] = Inr []"
| "update_lanes d i (lane # rest) =
     (case update_vehicle_number (d i) lane of
        Inl e \<Rightarrow> Inl e
      | Inr lane' \<Rightarrow>
          (case update_lanes d (Suc i) rest of
             Inl e \<Rightarrow> Inl e
           | Inr rest' \<Rightarrow> Inr (lane' # rest')))"

text \<open>
  \<^verbatim>\<open>traffic_data.loc[index] = final\<close>: pandas raises \<^verbatim>\<open>ValueError\<close> when the list has
  not one value for each column; otherwise the row labelled \<open>index\<close> is replaced, or
  added at the end when there is none.
\<close>

definition loc_setitem ::
  "string list \<Rightarrow> int \<Rightarrow> cell list \<Rightarrow> (int \<times> cell list) list \<Rightarrow> error + (int \<times> cell list) list"
where
  "loc_setitem cols index final rows =
     (if length final \<noteq> length cols then Inl ValueError
      else if index \<in> fst ` set rows
        then Inr (map (\<lambda>(k, r). if k = index then (k, final) else (k, r)) rows)
      else Inr (rows @ [(index, final)]))"

text \<open>\<^verbatim>\<open>Main.add_row\<close>: the list \<open>final\<close>, then the assignment of the row.\<close>

definition final_row :: "Main_self \<Rightarrow> cell list" where
  "final_row self =
     (if length (bikes self) > 0 then [Light (green_light (hd (bikes self)))] else [])
       @ map (\<lambda>bike. Count (vehicle_num bike)) (bikes self)
       @ (if length (cars self) > 0 then [Light (green_light (hd (cars self)))] else [])
       @ map (\<lambda>car. Count (vehicle_num car)) (cars self)"

definition add_row :: "int \<Rightarrow> Main_self \<Rightarrow> error + Main_self" where
  "add_row index self =
     (case loc_setitem (columns self) index (final_row self) (traffic_data self) of
        Inl e \<Rightarrow> Inl e
      | Inr rows \<Rightarrow> Inr (self\<lparr>traffic_data := rows\<rparr>))"

text \<open>\<^verbatim>\<open>Main.loop\<close>: the lights, then every queue, then the row.\<close>

definition loop :: "Globals \<Rightarrow> (nat \<Rightarrow> int) \<Rightarrow> int \<Rightarrow> Main_self \<Rightarrow> error + Main_self" where
  "loop g d iter_count self =
     (case loop_lights g (of_int iter_count) (lanes self) of
        Inl e \<Rightarrow> Inl e
      | Inr ls \<Rightarrow>
          (case update_lanes d 0 ls of
             Inl e \<Rightarrow> Inl e
           | Inr ls' \<Rightarrow> add_row iter_count (self\<lparr>lanes := ls'\<rparr>)))"

text \<open>
  \<^verbatim>\<open>for i in range(loop_count): self.loop(i)\<close>. \<open>run_loop g d n self\<close> is the first \<open>n\<close>
  iterations, \<open>0\<close> to \<open>n - 1\<close> in this order: the first \<open>Suc n\<close> iterations are the
  first \<open>n\<close> and then iteration \<open>n\<close>. \<open>d t i\<close> is the draw of lane \<open>i\<close> in tick \<open>t\<close>.
\<close>

fun run_loop :: "Globals \<Rightarrow> (nat \<Rightarrow> nat \<Rightarrow> int) \<Rightarrow> nat \<Rightarrow> Main_self \<Rightarrow> error + Main_self" where
  "run_loop g d 0 self = Inr self"
| "run_loop g d (Suc n) self =
     (case run_loop g d n self of
        Inl e \<Rightarrow> Inl e
      | Inr self' \<Rightarrow> loop g (d n) (int n) self')"

text \<open>\<^verbatim>\<open>str\<close> of a natural number, for the column labels.\<close>

definition digit_char :: "nat \<Rightarrow> char" where
  "digit_char k = ''0123456789'' ! k"

fun str_nat :: "nat \<Rightarrow> string" where
  "str_nat n = (if n < 10 then [digit_char n] else str_nat (n div 10) @ [digit_char (n mod 10)])"

declare str_nat.simps [simp del]

definition numbered :: "string \<Rightarrow> nat \<Rightarrow> string list" where
  "numbered prefix n = map (\<lambda>i. prefix @ str_nat (i + 1)) [0..<n]"

text \<open>\<^verbatim>\<open>int(x)\<close> of a float: truncation towards zero.\<close>

definition py_int :: "real \<Rightarrow> int" where
  "py_int x = (if 0 \<le> x then \<lfloor>x\<rfloor> else \<lceil>x\<rceil>)"

text \<open>
  The lanes of the fallback (lines 147-149), for \<open>lane_count = 4\<close>.
\<close>

definition lane_count :: nat where
  "lane_count = 4"

definition fallback_lane :: "nat \<Rightarrow> Lane" where
  "fallback_lane i =
     Lane_init (if real i \<ge> real lane_count / 2 then BIKE else CAR)
       ((real lane_count - real i) * 0.1)"

text \<open>
  \<^verbatim>\<open>Main.__init__\<close> up to the creation of the data frame (lines 118-155): the columns and
  the lanes, from what \<open>parse\<close> returned.
\<close>

definition Main_setup :: "Lane list \<Rightarrow> Main_self" where
  "Main_setup parsed =
     (if parsed \<noteq> [] then
        \<lparr>columns = [''bikelight'']
                    @ numbered ''Bikes '' (length (filter (\<lambda>a. lane_type a = BIKE) parsed))
                    @ [''carlight'']
                    @ numbered ''Cars '' (length (filter (\<lambda>a. lane_type a = CAR) parsed)),
         lanes = parsed, traffic_data = []\<rparr>
      else
        \<lparr>columns = [''Bike lanes'', ''Bikes 1'', ''Bikes 2'', ''Car lanes'', ''Cars 1'', ''Cars 2''],
         lanes = parsed @ map fallback_lane [0..<lane_count], traffic_data = []\<rparr>)"

text \<open>
  \<^verbatim>\<open>Main.__init__\<close>, from the module's constants, without the drawing of the graph: the
  constants after parsing and the object after the last tick.
\<close>

definition Main_init :: "config_source \<Rightarrow> (nat \<Rightarrow> nat \<Rightarrow> int) \<Rightarrow> error + (Globals \<times> Main_self)" where
  "Main_init src d =
     (case parse module_globals src of
        Inl e \<Rightarrow> Inl e
      | Inr (g, parsed) \<Rightarrow>
          (case run_loop g d (nat (py_int (3600 * SIM_LENGTH g))) (Main_setup parsed) of
             Inl e \<Rightarrow> Inl e
           | Inr self \<Rightarrow> Inr (g, self)))"

section \<open>Facts about the operations\<close>

lemma py_mod_add_self:
  assumes "y \<noteq> 0"
  shows "py_mod (x + y) y = py_mod x y"
proof -
  have "(x + y) / y = x / y + 1" using assms by (simp add: add_divide_distrib)
  then have "\<lfloor>(x + y) / y\<rfloor> = \<lfloor>x / y\<rfloor> + 1" by simp
  then show ?thesis by (simp add: py_mod_def algebra_simps)
qed

lemma py_mod_idem:
  assumes "y \<noteq> 0"
  shows "py_mod (py_mod x y) y = py_mod x y"
proof -
  have "(x - y * of_int \<lfloor>x / y\<rfloor>) / y = x / y - of_int \<lfloor>x / y\<rfloor>"
    using assms by (simp add: diff_divide_distrib)
  then have "\<lfloor>(x - y * of_int \<lfloor>x / y\<rfloor>) / y\<rfloor> = 0" by simp
  then show ?thesis by (simp add: py_mod_def)
qed

lemma py_mod_of_int:
  "py_mod (of_int t) (of_int c) = of_int (t mod c)"
proof -
  have "\<lfloor>(of_int t :: real) / of_int c\<rfloor> = t div c" by (rule floor_divide_of_int_eq)
  then have "py_mod (of_int t) (of_int c) = of_int (t - c * (t div c))"
    by (simp add: py_mod_def)
  also have "t - c * (t div c) = t mod c" by (simp add: minus_mult_div_eq_mod)
  finally show ?thesis .
qed

lemma update_vehicle_number_nonneg:
  assumes "lane_type l = CAR \<or> lane_type l = BIKE"
    and "0 \<le> vehicle_num l" and "0 \<le> k"
    and "update_vehicle_number k l = Inr l'"
  shows "0 \<le> vehicle_num l'"
  using assms
  by (auto simp: update_vehicle_number_def poisson_def CAR_def BIKE_def Let_def
           split: if_splits)

lemma set_lanes_map:
  "set_lanes lt s ls = map (\<lambda>l. if lane_type l = lt then l\<lparr>green_light := s\<rparr> else l) ls"
  by (induction ls) auto

lemma update_vehicle_number_frame:
  "update_vehicle_number k l = Inr l' \<Longrightarrow>
     green_light l' = green_light l \<and> lane_type l' = lane_type l \<and> business l' = business l"
  by (auto simp: update_vehicle_number_def Let_def split: sum.splits if_splits)

lemma update_vehicle_number_ok:
  "0 \<le> business l \<Longrightarrow> business l \<le> POISSON_LAM_MAX \<Longrightarrow> \<exists>l'. update_vehicle_number k l = Inr l'"
  by (auto simp: update_vehicle_number_def poisson_def Let_def)

lemma update_lanes_ok:
  "\<forall>l\<in>set ls. 0 \<le> business l \<and> business l \<le> POISSON_LAM_MAX \<Longrightarrow> \<exists>ls'. update_lanes d i ls = Inr ls'"
proof (induction ls arbitrary: i)
  case Nil then show ?case by simp
next
  case (Cons a ls)
  from Cons.prems obtain a' where a: "update_vehicle_number (d i) a = Inr a'"
    using update_vehicle_number_ok[of a "d i"] by auto
  from Cons.prems have "\<forall>l\<in>set ls. 0 \<le> business l \<and> business l \<le> POISSON_LAM_MAX" by simp
  from Cons.IH[OF this] obtain ls' where "update_lanes d (Suc i) ls = Inr ls'" by blast
  with a show ?case by simp
qed

lemma update_lanes_frame:
  assumes "update_lanes d i ls = Inr ls'"
  shows "map green_light ls' = map green_light ls \<and> map lane_type ls' = map lane_type ls
    \<and> map business ls' = map business ls"
  using assms
proof (induction ls arbitrary: i ls')
  case Nil then show ?case by simp
next
  case (Cons a ls)
  from Cons.prems obtain a' rest' where
    a: "update_vehicle_number (d i) a = Inr a'" and
    r: "update_lanes d (Suc i) ls = Inr rest'" and e: "ls' = a' # rest'"
    by (auto split: sum.splits)
  from Cons.IH[OF r] update_vehicle_number_frame[OF a] e show ?case by simp
qed

lemma set_lanes_frame:
  "map lane_type (set_lanes lt s xs) = map lane_type xs"
  "map business (set_lanes lt s xs) = map business xs"
  "map vehicle_num (set_lanes lt s xs) = map vehicle_num xs"
  by (induction xs) simp_all

lemma loop_lights_cases:
  assumes "loop_lights g t ls = Inr ls'"
  shows "ls' = ls \<or> (\<exists>lt s. ls' = set_lanes lt s ls)
           \<or> (\<exists>lt s lt2 s2. ls' = set_lanes lt s (set_lanes lt2 s2 ls))"
proof -
  from assms have c: "CYCLE_LENGTH g \<noteq> 0"
    by (simp add: loop_lights_def split: if_splits)
  show ?thesis
    using assms unfolding loop_lights_def Let_def
    by (simp only: c if_False split: if_splits) blast+
qed

lemma loop_lights_frame:
  assumes "loop_lights g t ls = Inr ls'"
  shows "map lane_type ls' = map lane_type ls \<and> map business ls' = map business ls
    \<and> map vehicle_num ls' = map vehicle_num ls"
  using loop_lights_cases[OF assms]
  by (elim disjE exE) (simp_all add: set_lanes_frame)

lemma loop_lights_ok:
  "CYCLE_LENGTH g \<noteq> 0 \<Longrightarrow> \<exists>ls'. loop_lights g t ls = Inr ls'"
  by (simp add: loop_lights_def Let_def)

lemma filter_length_cong:
  "map f xs = map f ys \<Longrightarrow>
     length (filter (\<lambda>a. f a = c) xs) = length (filter (\<lambda>a. f a = c) ys)"
proof (induction xs arbitrary: ys)
  case Nil then show ?case by simp
next
  case (Cons x xs)
  then obtain y ys' where "ys = y # ys'" "f x = f y" "map f xs = map f ys'"
    by (cases ys) auto
  with Cons.IH[of ys'] show ?case by simp
qed

lemma final_row_width:
  "length (final_row self) =
     (if length (bikes self) = 0 then 0 else 1) + length (bikes self)
       + ((if length (cars self) = 0 then 0 else 1) + length (cars self))"
  by (simp add: final_row_def)

lemma length_final_row_cong:
  assumes "map lane_type (lanes a) = map lane_type (lanes b)"
  shows "length (final_row a) = length (final_row b)"
proof -
  have "length (bikes a) = length (bikes b)" "length (cars a) = length (cars b)"
    unfolding bikes_def cars_def using assms by (rule filter_length_cong)+
  then show ?thesis
    by (simp only: final_row_width)
qed


lemma loop_decomp:
  assumes "loop g d t self = Inr self'"
  obtains ls1 ls2 rows where
    "loop_lights g t (lanes self) = Inr ls1"
    "update_lanes d 0 ls1 = Inr ls2"
    "loc_setitem (columns self) t (final_row (self\<lparr>lanes := ls2\<rparr>)) (traffic_data self) = Inr rows"
    "self' = self\<lparr>lanes := ls2, traffic_data := rows\<rparr>"
  using assms
  by (auto simp: loop_def add_row_def split: sum.splits)

lemma loop_frame:
  assumes "loop g d t self = Inr self'"
  shows "columns self' = columns self \<and> map lane_type (lanes self') = map lane_type (lanes self)
    \<and> map business (lanes self') = map business (lanes self)"
proof -
  from assms obtain ls1 ls2 rows where
    1: "loop_lights g t (lanes self) = Inr ls1" and
    2: "update_lanes d 0 ls1 = Inr ls2" and
    4: "self' = self\<lparr>lanes := ls2, traffic_data := rows\<rparr>"
    by (rule loop_decomp)
  from loop_lights_frame[OF 1] update_lanes_frame[OF 2] 4 show ?thesis by simp
qed

lemma all_business_map:
  assumes e: "map business xs = map business ys"
  shows "(\<forall>l\<in>set xs. 0 \<le> business l \<and> business l \<le> POISSON_LAM_MAX)
       = (\<forall>l\<in>set ys. 0 \<le> business l \<and> business l \<le> POISSON_LAM_MAX)"
proof -
  have "(\<forall>l\<in>set xs. 0 \<le> business l \<and> business l \<le> POISSON_LAM_MAX)
      = (\<forall>b\<in>set (map business xs). 0 \<le> b \<and> b \<le> POISSON_LAM_MAX)"
    by simp
  also have "\<dots> = (\<forall>b\<in>set (map business ys). 0 \<le> b \<and> b \<le> POISSON_LAM_MAX)"
    by (simp only: e)
  also have "\<dots> = (\<forall>l\<in>set ys. 0 \<le> business l \<and> business l \<le> POISSON_LAM_MAX)"
    by simp
  finally show ?thesis .
qed

lemma loop_ok:
  assumes c: "CYCLE_LENGTH g \<noteq> 0"
    and b: "\<forall>l\<in>set (lanes self). 0 \<le> business l \<and> business l \<le> POISSON_LAM_MAX"
    and w: "length (final_row self) = length (columns self)"
  shows "\<exists>self'. loop g d t self = Inr self'"
proof -
  from loop_lights_ok[OF c] obtain ls1 where 1: "loop_lights g t (lanes self) = Inr ls1"
    by blast
  from loop_lights_frame[OF 1] b
  have "\<forall>l\<in>set ls1. 0 \<le> business l \<and> business l \<le> POISSON_LAM_MAX"
    using all_business_map[of ls1 "lanes self"] by simp
  from update_lanes_ok[OF this] obtain ls2 where 2: "update_lanes d 0 ls1 = Inr ls2"
    by blast
  have "map lane_type (lanes (self\<lparr>lanes := ls2\<rparr>)) = map lane_type (lanes self)"
    using loop_lights_frame[OF 1] update_lanes_frame[OF 2] by simp
  from length_final_row_cong[OF this] w
  have "length (final_row (self\<lparr>lanes := ls2\<rparr>)) = length (columns self)" by simp
  with 1 2 show ?thesis
    by (simp add: loop_def add_row_def loc_setitem_def)
qed


lemma run_loop_frame:
  "run_loop g d n self = Inr self' \<Longrightarrow>
     columns self' = columns self \<and> map lane_type (lanes self') = map lane_type (lanes self)
       \<and> map business (lanes self') = map business (lanes self)"
proof (induction n arbitrary: self')
  case 0 then show ?case by simp
next
  case (Suc n)
  from Suc.prems obtain s1 where r: "run_loop g d n self = Inr s1"
    and l: "loop g (d n) (int n) s1 = Inr self'"
    by (auto split: sum.splits)
  from Suc.IH[OF r] loop_frame[OF l] show ?case by simp
qed

lemma run_loop_ok:
  assumes c: "CYCLE_LENGTH g \<noteq> 0"
    and b: "\<forall>l\<in>set (lanes self). 0 \<le> business l \<and> business l \<le> POISSON_LAM_MAX"
    and w: "length (final_row self) = length (columns self)"
  shows "\<exists>self'. run_loop g d n self = Inr self'"
proof (induction n)
  case 0 show ?case by simp
next
  case (Suc n)
  then obtain s1 where r: "run_loop g d n self = Inr s1" by blast
  note f = run_loop_frame[OF r]
  from f b have b1: "\<forall>l\<in>set (lanes s1). 0 \<le> business l \<and> business l \<le> POISSON_LAM_MAX"
    using all_business_map[of "lanes s1" "lanes self"] by simp
  from f have "map lane_type (lanes s1) = map lane_type (lanes self)" by simp
  from length_final_row_cong[OF this] w f
  have w1: "length (final_row s1) = length (columns s1)" by simp
  from loop_ok[OF c b1 w1] r show ?case by simp
qed

lemma loop_rows:
  assumes "loop g d t self = Inr self'" and "t \<notin> fst ` set (traffic_data self)"
  shows "\<exists>r. traffic_data self' = traffic_data self @ [(t, r)] \<and> length r = length (columns self)"
proof -
  from assms(1) obtain ls1 ls2 rows where
    3: "loc_setitem (columns self) t (final_row (self\<lparr>lanes := ls2\<rparr>)) (traffic_data self) = Inr rows"
    and 4: "self' = self\<lparr>lanes := ls2, traffic_data := rows\<rparr>"
    by (rule loop_decomp)
  from 3 assms(2) 4 show ?thesis
    by (auto simp: loc_setitem_def split: if_splits)
qed

lemma run_loop_rows:
  assumes "traffic_data self = []"
  shows "run_loop g d n self = Inr self' \<Longrightarrow>
     map fst (traffic_data self') = map int [0..<n]
       \<and> (\<forall>r\<in>set (map snd (traffic_data self')). length r = length (columns self))"
proof (induction n arbitrary: self')
  case 0 with assms show ?case by simp
next
  case (Suc n)
  from Suc.prems obtain s1 where r: "run_loop g d n self = Inr s1"
    and l: "loop g (d n) (int n) s1 = Inr self'"
    by (auto split: sum.splits)
  note ih = Suc.IH[OF r]
  from ih have "fst ` set (traffic_data s1) = int ` {0..<n}"
    by (metis atLeastLessThan_upt image_set)
  then have "int n \<notin> fst ` set (traffic_data s1)" by auto
  from loop_rows[OF l this] obtain row where
    "traffic_data self' = traffic_data s1 @ [(int n, row)]" "length row = length (columns s1)"
    by blast
  with ih run_loop_frame[OF r] show ?case by simp
qed


lemma set_lanes_queue_inv:
  assumes "\<forall>x\<in>set ls. (lane_type x = CAR \<or> lane_type x = BIKE) \<and> 0 \<le> vehicle_num x"
  shows "\<forall>x\<in>set (set_lanes lt s ls). (lane_type x = CAR \<or> lane_type x = BIKE) \<and> 0 \<le> vehicle_num x"
proof
  fix x assume "x \<in> set (set_lanes lt s ls)"
  then obtain y where y: "y \<in> set ls" and x: "x = (if lane_type y = lt then y\<lparr>green_light := s\<rparr> else y)"
    unfolding set_lanes_map by auto
  from assms y have "(lane_type y = CAR \<or> lane_type y = BIKE) \<and> 0 \<le> vehicle_num y" by blast
  with x show "(lane_type x = CAR \<or> lane_type x = BIKE) \<and> 0 \<le> vehicle_num x"
    by (cases "lane_type y = lt") simp_all
qed

lemma update_lanes_queue_inv:
  assumes "update_lanes d i ls = Inr ls'" and "\<forall>j. 0 \<le> d j"
    and "\<forall>x\<in>set ls. (lane_type x = CAR \<or> lane_type x = BIKE) \<and> 0 \<le> vehicle_num x"
  shows "\<forall>x\<in>set ls'. (lane_type x = CAR \<or> lane_type x = BIKE) \<and> 0 \<le> vehicle_num x"
  using assms
proof (induction ls arbitrary: i ls')
  case Nil then show ?case by simp
next
  case (Cons a ls)
  from Cons.prems(1) obtain a' rest' where
    a: "update_vehicle_number (d i) a = Inr a'" and
    r: "update_lanes d (Suc i) ls = Inr rest'" and e: "ls' = a' # rest'"
    by (auto split: sum.splits)
  from Cons.prems have pa: "lane_type a = CAR \<or> lane_type a = BIKE" "0 \<le> vehicle_num a" "0 \<le> d i"
    by simp_all
  from update_vehicle_number_nonneg[OF pa a] update_vehicle_number_frame[OF a] pa(1)
  have "(lane_type a' = CAR \<or> lane_type a' = BIKE) \<and> 0 \<le> vehicle_num a'" by simp
  moreover from Cons.prems have "\<forall>x\<in>set ls. (lane_type x = CAR \<or> lane_type x = BIKE) \<and> 0 \<le> vehicle_num x"
    by simp
  from Cons.IH[OF r Cons.prems(2) this]
  have "\<forall>x\<in>set rest'. (lane_type x = CAR \<or> lane_type x = BIKE) \<and> 0 \<le> vehicle_num x" .
  ultimately show ?case using e by simp
qed

lemma loop_queue_inv:
  assumes l: "loop g d t self = Inr self'" and d: "\<forall>j. 0 \<le> d j"
    and i: "\<forall>x\<in>set (lanes self). (lane_type x = CAR \<or> lane_type x = BIKE) \<and> 0 \<le> vehicle_num x"
  shows "\<forall>x\<in>set (lanes self'). (lane_type x = CAR \<or> lane_type x = BIKE) \<and> 0 \<le> vehicle_num x"
proof -
  from l obtain ls1 ls2 rows where
    1: "loop_lights g t (lanes self) = Inr ls1" and
    2: "update_lanes d 0 ls1 = Inr ls2" and
    4: "self' = self\<lparr>lanes := ls2, traffic_data := rows\<rparr>"
    by (rule loop_decomp)
  from loop_lights_cases[OF 1] consider "ls1 = lanes self"
    | lt s where "ls1 = set_lanes lt s (lanes self)"
    | lt s lt2 s2 where "ls1 = set_lanes lt s (set_lanes lt2 s2 (lanes self))"
    by blast
  then have "\<forall>x\<in>set ls1. (lane_type x = CAR \<or> lane_type x = BIKE) \<and> 0 \<le> vehicle_num x"
  proof cases
    case 1 with i show ?thesis by simp
  next
    case 2 with set_lanes_queue_inv[OF i] show ?thesis by simp
  next
    case 3 with set_lanes_queue_inv[OF set_lanes_queue_inv[OF i]] show ?thesis by simp
  qed
  from update_lanes_queue_inv[OF 2 d this] 4 show ?thesis by simp
qed

section \<open>The queue never goes negative\<close>

text \<open>
  Claim C1. One call of \<open>update_vehicle_number\<close> on a Car or Bike lane whose queue is not
  negative, with a draw that is not negative, leaves a queue that is not negative, whatever
  the light; and one tick of the simulation (\<open>loop\<close>) keeps every queue of the lane list
  non-negative (together with the lanes' types, which it does not change).
\<close>

theorem queue_never_negative:
  "((lane_type l = CAR \<or> lane_type l = BIKE) \<and> 0 \<le> vehicle_num l \<and> 0 \<le> k
      \<and> update_vehicle_number k l = Inr l' \<longrightarrow> 0 \<le> vehicle_num l')
   \<and> ((\<forall>x\<in>set (lanes self). (lane_type x = CAR \<or> lane_type x = BIKE) \<and> 0 \<le> vehicle_num x)
        \<and> (\<forall>j. 0 \<le> d j) \<and> loop g d t self = Inr self'
      \<longrightarrow> (\<forall>x\<in>set (lanes self'). (lane_type x = CAR \<or> lane_type x = BIKE) \<and> 0 \<le> vehicle_num x))"
proof (intro conjI impI)
  assume "(lane_type l = CAR \<or> lane_type l = BIKE) \<and> 0 \<le> vehicle_num l \<and> 0 \<le> k
      \<and> update_vehicle_number k l = Inr l'"
  then show "0 \<le> vehicle_num l'"
    using update_vehicle_number_nonneg[of l k l'] by simp
next
  assume a: "(\<forall>x\<in>set (lanes self). (lane_type x = CAR \<or> lane_type x = BIKE) \<and> 0 \<le> vehicle_num x)
        \<and> (\<forall>j. 0 \<le> d j) \<and> loop g d t self = Inr self'"
  then have "loop g d t self = Inr self'" "\<forall>j. 0 \<le> d j"
    "\<forall>x\<in>set (lanes self). (lane_type x = CAR \<or> lane_type x = BIKE) \<and> 0 \<le> vehicle_num x"
    by simp_all
  then show "\<forall>x\<in>set (lanes self'). (lane_type x = CAR \<or> lane_type x = BIKE) \<and> 0 \<le> vehicle_num x"
    by (rule loop_queue_inv)
qed

theorem queue_never_negative_witness:
  "(lane_type \<lparr>green_light = True, vehicle_num = 1, lane_type = BIKE, business = 1 / 2\<rparr> = CAR
      \<or> lane_type \<lparr>green_light = True, vehicle_num = 1, lane_type = BIKE, business = 1 / 2\<rparr> = BIKE)
   \<and> (0::int) \<le> 1
   \<and> update_vehicle_number 0 \<lparr>green_light = True, vehicle_num = 1, lane_type = BIKE, business = 1 / 2\<rparr>
       = Inr \<lparr>green_light = True, vehicle_num = 0, lane_type = BIKE, business = 1 / 2\<rparr>
   \<and> 0 \<le> vehicle_num \<lparr>green_light = True, vehicle_num = 0, lane_type = BIKE, business = 1 / 2\<rparr>
   \<and> map vehicle_num (lanes (Main_setup [])) = [0, 0, 0, 0]
   \<and> (\<exists>self'. loop module_globals (\<lambda>j. 1) 0 (Main_setup []) = Inr self'
         \<and> map vehicle_num (lanes self') = [1, 1, 0, 0]
         \<and> list_all (\<lambda>x. 0 \<le> vehicle_num x) (lanes self'))"
proof -
  let ?l = "\<lparr>green_light = True, vehicle_num = 1, lane_type = BIKE, business = 1 / 2\<rparr>"
  let ?l' = "\<lparr>green_light = True, vehicle_num = 0, lane_type = BIKE, business = 1 / 2\<rparr>"
  let ?self' = "\<lparr>columns = [''Bike lanes'', ''Bikes 1'', ''Bikes 2'', ''Car lanes'', ''Cars 1'', ''Cars 2''],
       lanes = [\<lparr>green_light = False, vehicle_num = 1, lane_type = CAR, business = 2 / 5\<rparr>,
                \<lparr>green_light = False, vehicle_num = 1, lane_type = CAR, business = 3 / 10\<rparr>,
                \<lparr>green_light = True, vehicle_num = 0, lane_type = BIKE, business = 1 / 5\<rparr>,
                \<lparr>green_light = True, vehicle_num = 0, lane_type = BIKE, business = 1 / 10\<rparr>],
       traffic_data = [(0, [Light True, Count 0, Count 0, Light False, Count 1, Count 1])]\<rparr>"
  have u: "update_vehicle_number 0 ?l = Inr ?l'"
    by (simp add: update_vehicle_number_def poisson_def POISSON_LAM_MAX_def)
  have s: "lanes (Main_setup []) =
      [\<lparr>green_light = False, vehicle_num = 0, lane_type = CAR, business = 2 / 5\<rparr>,
       \<lparr>green_light = False, vehicle_num = 0, lane_type = CAR, business = 3 / 10\<rparr>,
       \<lparr>green_light = False, vehicle_num = 0, lane_type = BIKE, business = 1 / 5\<rparr>,
       \<lparr>green_light = False, vehicle_num = 0, lane_type = BIKE, business = 1 / 10\<rparr>]"
    by code_simp
  have t: "loop module_globals (\<lambda>j. 1) 0 (Main_setup []) = Inr ?self'"
    by code_simp
  from queue_never_negative[of ?l 0 ?l' "Main_setup []" "\<lambda>j. 1" module_globals 0 ?self'] u s t
  have "0 \<le> vehicle_num ?l'" and "\<forall>x\<in>set (lanes ?self'). 0 \<le> vehicle_num x"
    by simp_all
  with u s t show ?thesis
    by (simp add: list_all_iff)
qed

section \<open>The bike floor rule\<close>

text \<open>
  Claim C2, as stated, fails: a green Bike lane with an empty queue and one arrival has
  queue 1 after the arrivals are added, one vehicle leaves, and the queue ends at 0, which
  is not "0 plus this tick's arrivals" (that would be 1). Nor does the formula hold when
  the queue is 1 before the arrivals: with one arrival the sum is 2, two vehicles leave,
  and the queue ends at 0 again.
\<close>

theorem bike_floor_counterexample:
  "\<not> (\<forall>l k l'. lane_type l = BIKE \<and> green_light l \<and> 0 \<le> vehicle_num l \<and> 0 \<le> k
         \<and> vehicle_num l + k = 1 \<and> update_vehicle_number k l = Inr l'
       \<longrightarrow> vehicle_num l' = 0 + k)
   \<and> update_vehicle_number 1 \<lparr>green_light = True, vehicle_num = 0, lane_type = BIKE, business = 1 / 2\<rparr>
       = Inr \<lparr>green_light = True, vehicle_num = 0, lane_type = BIKE, business = 1 / 2\<rparr>
   \<and> update_vehicle_number 1 \<lparr>green_light = True, vehicle_num = 1, lane_type = BIKE, business = 1 / 2\<rparr>
       = Inr \<lparr>green_light = True, vehicle_num = 0, lane_type = BIKE, business = 1 / 2\<rparr>"
proof (intro conjI notI)
  assume a: "\<forall>l k l'. lane_type l = BIKE \<and> green_light l \<and> 0 \<le> vehicle_num l \<and> 0 \<le> k
         \<and> vehicle_num l + k = 1 \<and> update_vehicle_number k l = Inr l'
       \<longrightarrow> vehicle_num l' = 0 + k"
  let ?l = "\<lparr>green_light = True, vehicle_num = 0, lane_type = BIKE, business = 1 / 2\<rparr>"
  have "update_vehicle_number 1 ?l = Inr (?l\<lparr>vehicle_num := 0\<rparr>)"
    by (simp add: update_vehicle_number_def poisson_def POISSON_LAM_MAX_def)
  with a[rule_format, of ?l 1 "?l\<lparr>vehicle_num := 0\<rparr>"] show False
    by simp
next
  show "update_vehicle_number 1 \<lparr>green_light = True, vehicle_num = 0, lane_type = BIKE, business = 1 / 2\<rparr>
       = Inr \<lparr>green_light = True, vehicle_num = 0, lane_type = BIKE, business = 1 / 2\<rparr>"
    by (simp add: update_vehicle_number_def poisson_def POISSON_LAM_MAX_def)
next
  show "update_vehicle_number 1 \<lparr>green_light = True, vehicle_num = 1, lane_type = BIKE, business = 1 / 2\<rparr>
       = Inr \<lparr>green_light = True, vehicle_num = 0, lane_type = BIKE, business = 1 / 2\<rparr>"
    by (simp add: update_vehicle_number_def poisson_def POISSON_LAM_MAX_def BIKE_def)
qed

text \<open>
  Claim C2, amended. For a green Bike lane whose queue is 1 once this tick's arrivals are
  added (and whose rate the sampler accepts), one call of \<open>update_vehicle_number\<close> returns
  the lane with exactly one vehicle gone from that sum, not two: the queue ends at 0.
\<close>

theorem bike_floor:
  assumes "lane_type l = BIKE" and "green_light l" and "vehicle_num l + k = 1"
    and "0 \<le> business l" and "business l \<le> POISSON_LAM_MAX"
  shows "update_vehicle_number k l = Inr (l\<lparr>vehicle_num := vehicle_num l + k - 1\<rparr>)
         \<and> update_vehicle_number k l = Inr (l\<lparr>vehicle_num := 0\<rparr>)"
  using assms
  by (simp add: update_vehicle_number_def poisson_def Let_def)

text \<open>The instance with no arrival: a green Bike lane with queue 1 ends the tick at 0.\<close>

theorem bike_floor_witness:
  "lane_type \<lparr>green_light = True, vehicle_num = 1, lane_type = BIKE, business = 1 / 2\<rparr> = BIKE
   \<and> green_light \<lparr>green_light = True, vehicle_num = 1, lane_type = BIKE, business = 1 / 2\<rparr>
   \<and> vehicle_num \<lparr>green_light = True, vehicle_num = 1, lane_type = BIKE, business = 1 / 2\<rparr> + 0 = 1
   \<and> (0::real) \<le> 1 / 2 \<and> (1::real) / 2 \<le> POISSON_LAM_MAX
   \<and> update_vehicle_number 0 \<lparr>green_light = True, vehicle_num = 1, lane_type = BIKE, business = 1 / 2\<rparr>
       = Inr \<lparr>green_light = True, vehicle_num = 0, lane_type = BIKE, business = 1 / 2\<rparr>"
  using bike_floor[of "\<lparr>green_light = True, vehicle_num = 1, lane_type = BIKE, business = 1 / 2\<rparr>" 0]
  by (simp add: POISSON_LAM_MAX_def)

section \<open>The schedule is periodic\<close>

text \<open>
  Claim C7. The switching of the lights in \<open>loop\<close> at tick \<open>t + CYCLE_LENGTH\<close> is the one
  at tick \<open>t\<close>, for every tick, every lane list and every value of the constants: it
  depends on the tick through \<open>t % CYCLE_LENGTH\<close> only (and raises for both ticks
  when \<open>CYCLE_LENGTH\<close> is 0). For an integer tick and a cycle length that is a whole
  number the remainder is \<open>mod\<close> on the integers.
\<close>

theorem schedule_periodic:
  "loop_lights g (t + CYCLE_LENGTH g) ls = loop_lights g t ls
   \<and> loop_lights g (py_mod t (CYCLE_LENGTH g)) ls = loop_lights g t ls
   \<and> (CYCLE_LENGTH g = of_int c \<longrightarrow>
        loop_lights g (of_int (k + c)) ls = loop_lights g (of_int k) ls
      \<and> loop_lights g (of_int (k mod c)) ls = loop_lights g (of_int k) ls)"
proof (cases "CYCLE_LENGTH g = 0")
  case True
  then show ?thesis by (simp add: loop_lights_def)
next
  case False
  have 1: "loop_lights g (t + CYCLE_LENGTH g) ls = loop_lights g t ls" for t
    using False by (simp add: loop_lights_def py_mod_add_self)
  have 2: "loop_lights g (py_mod t (CYCLE_LENGTH g)) ls = loop_lights g t ls" for t
    using False by (simp add: loop_lights_def py_mod_idem)
  have 3: "loop_lights g (of_int (k + c)) ls = loop_lights g (of_int k) ls"
    "loop_lights g (of_int (k mod c)) ls = loop_lights g (of_int k) ls"
    if c: "CYCLE_LENGTH g = of_int c"
    using 1[of "of_int k"] 2[of "of_int k"] by (simp_all add: c py_mod_of_int)
  from 1 2 3 show ?thesis by blast
qed

theorem schedule_periodic_witness:
  "CYCLE_LENGTH module_globals = of_int 60
   \<and> loop_lights module_globals (10 + CYCLE_LENGTH module_globals)
      [Lane_init CAR (2 / 5), (Lane_init BIKE (1 / 5))\<lparr>green_light := True\<rparr>]
    = Inr [Lane_init CAR (2 / 5), Lane_init BIKE (1 / 5)]
   \<and> loop_lights module_globals 10
      [Lane_init CAR (2 / 5), (Lane_init BIKE (1 / 5))\<lparr>green_light := True\<rparr>]
    = Inr [Lane_init CAR (2 / 5), Lane_init BIKE (1 / 5)]
   \<and> loop_lights module_globals (of_int (10 + 60))
      [Lane_init CAR (2 / 5), (Lane_init BIKE (1 / 5))\<lparr>green_light := True\<rparr>]
    = Inr [Lane_init CAR (2 / 5), Lane_init BIKE (1 / 5)]"
proof -
  let ?ls = "[Lane_init CAR (2 / 5), (Lane_init BIKE (1 / 5))\<lparr>green_light := True\<rparr>]"
  have c: "CYCLE_LENGTH module_globals = of_int 60" by (simp add: module_globals_def)
  have e: "loop_lights module_globals 10 ?ls = Inr [Lane_init CAR (2 / 5), Lane_init BIKE (1 / 5)]"
    by (simp add: loop_lights_def py_mod_def module_globals_def Lane_init_def CAR_def BIKE_def)
  from schedule_periodic[of module_globals 10 ?ls 60 10] c e
  have "loop_lights module_globals (10 + CYCLE_LENGTH module_globals) ?ls
          = Inr [Lane_init CAR (2 / 5), Lane_init BIKE (1 / 5)]"
    and "loop_lights module_globals (of_int (10 + 60)) ?ls
          = Inr [Lane_init CAR (2 / 5), Lane_init BIKE (1 / 5)]"
    by simp_all
  with c e show ?thesis by (intro conjI)
qed

section \<open>What each operation leaves unchanged\<close>

lemma set_lanes_length: "length (set_lanes lt s ls) = length ls"
  by (simp add: set_lanes_map)

lemma set_lanes_nth:
  "i < length ls \<Longrightarrow>
     set_lanes lt s ls ! i = (if lane_type (ls ! i) = lt then (ls ! i)\<lparr>green_light := s\<rparr> else ls ! i)"
  by (simp add: set_lanes_map)

lemma loop_lights_length:
  "loop_lights g t ls = Inr ls' \<Longrightarrow> length ls' = length ls"
  using loop_lights_frame[of g t ls ls'] by (metis length_map)

lemma loop_lights_nth:
  assumes "loop_lights g t ls = Inr ls'" and "i < length ls"
  shows "ls' ! i =
     (if py_mod t (CYCLE_LENGTH g) = 0 then
        (if lane_type (ls ! i) = BIKE then (ls ! i)\<lparr>green_light := True\<rparr>
         else if lane_type (ls ! i) = CAR then (ls ! i)\<lparr>green_light := False\<rparr>
         else ls ! i)
      else if py_mod t (CYCLE_LENGTH g) = GREEN_BIKES g then
        (if lane_type (ls ! i) = BIKE then (ls ! i)\<lparr>green_light := False\<rparr> else ls ! i)
      else if py_mod t (CYCLE_LENGTH g) = GREEN_BIKES g + RED_TIME_ALL g then
        (if lane_type (ls ! i) = CAR then (ls ! i)\<lparr>green_light := True\<rparr> else ls ! i)
      else if py_mod t (CYCLE_LENGTH g) = GREEN_BIKES g + RED_TIME_ALL g + GREEN_CARS g then
        (if lane_type (ls ! i) = CAR then (ls ! i)\<lparr>green_light := False\<rparr> else ls ! i)
      else ls ! i)"
proof -
  from assms(1) have c: "CYCLE_LENGTH g \<noteq> 0"
    by (simp add: loop_lights_def split: if_splits)
  have cb: "CAR \<noteq> BIKE" by (simp add: CAR_def BIKE_def)
  from assms(1) have "ls' =
     (if py_mod t (CYCLE_LENGTH g) = 0 then set_lanes BIKE True (set_lanes CAR False ls)
      else if py_mod t (CYCLE_LENGTH g) = GREEN_BIKES g then set_lanes BIKE False ls
      else if py_mod t (CYCLE_LENGTH g) = GREEN_BIKES g + RED_TIME_ALL g then set_lanes CAR True ls
      else if py_mod t (CYCLE_LENGTH g) = GREEN_BIKES g + RED_TIME_ALL g + GREEN_CARS g
        then set_lanes CAR False ls
      else ls)"
    using c by (simp add: loop_lights_def Let_def split: if_splits)
  then show ?thesis
    using assms(2) cb by (simp add: set_lanes_nth set_lanes_length)
qed

lemma loop_lights_frame_nth:
  assumes "loop_lights g t ls = Inr ls'" and "i < length ls"
  shows "lane_type (ls' ! i) = lane_type (ls ! i)
            \<and> business (ls' ! i) = business (ls ! i)
            \<and> vehicle_num (ls' ! i) = vehicle_num (ls ! i)
            \<and> (py_mod t (CYCLE_LENGTH g) = 0 \<and> lane_type (ls ! i) \<noteq> CAR \<and> lane_type (ls ! i) \<noteq> BIKE
                 \<longrightarrow> ls' ! i = ls ! i)
            \<and> (py_mod t (CYCLE_LENGTH g) \<noteq> 0 \<and> py_mod t (CYCLE_LENGTH g) = GREEN_BIKES g
                 \<and> lane_type (ls ! i) \<noteq> BIKE
                 \<longrightarrow> ls' ! i = ls ! i)
            \<and> (py_mod t (CYCLE_LENGTH g) \<noteq> 0 \<and> py_mod t (CYCLE_LENGTH g) \<noteq> GREEN_BIKES g
                 \<and> (py_mod t (CYCLE_LENGTH g) = GREEN_BIKES g + RED_TIME_ALL g
                     \<or> py_mod t (CYCLE_LENGTH g) = GREEN_BIKES g + RED_TIME_ALL g + GREEN_CARS g)
                 \<and> lane_type (ls ! i) \<noteq> CAR
                 \<longrightarrow> ls' ! i = ls ! i)
            \<and> (py_mod t (CYCLE_LENGTH g) \<noteq> 0 \<and> py_mod t (CYCLE_LENGTH g) \<noteq> GREEN_BIKES g
                 \<and> py_mod t (CYCLE_LENGTH g) \<noteq> GREEN_BIKES g + RED_TIME_ALL g
                 \<and> py_mod t (CYCLE_LENGTH g) \<noteq> GREEN_BIKES g + RED_TIME_ALL g + GREEN_CARS g
                 \<longrightarrow> ls' ! i = ls ! i)"
  by (auto simp add: loop_lights_nth[OF assms])

text \<open>
  Claim C9. When the light-switching part of \<open>loop\<close> returns, the lane list has the same
  length and every lane keeps its type, its rate and its queue. At the boundary of phase 0
  (Car to red, Bike to green) a lane of neither class is unchanged; at the boundary
  \<open>GREEN_BIKES\<close> (Bike to red) every lane that is not a Bike lane is unchanged; at the two
  later boundaries (Car to green, Car to red) every lane that is not a Car lane is
  unchanged; on every other tick every lane is unchanged. The boundaries are the branches
  of the source's chain of comparisons, in its order. \<open>update_vehicle_number\<close> changes
  neither the light, nor the type, nor the rate.
\<close>

theorem frame_effects:
  "(loop_lights g t ls = Inr ls' \<longrightarrow>
      length ls' = length ls
      \<and> (\<forall>i<length ls.
            lane_type (ls' ! i) = lane_type (ls ! i)
            \<and> business (ls' ! i) = business (ls ! i)
            \<and> vehicle_num (ls' ! i) = vehicle_num (ls ! i)
            \<and> (py_mod t (CYCLE_LENGTH g) = 0 \<and> lane_type (ls ! i) \<noteq> CAR \<and> lane_type (ls ! i) \<noteq> BIKE
                 \<longrightarrow> ls' ! i = ls ! i)
            \<and> (py_mod t (CYCLE_LENGTH g) \<noteq> 0 \<and> py_mod t (CYCLE_LENGTH g) = GREEN_BIKES g
                 \<and> lane_type (ls ! i) \<noteq> BIKE
                 \<longrightarrow> ls' ! i = ls ! i)
            \<and> (py_mod t (CYCLE_LENGTH g) \<noteq> 0 \<and> py_mod t (CYCLE_LENGTH g) \<noteq> GREEN_BIKES g
                 \<and> (py_mod t (CYCLE_LENGTH g) = GREEN_BIKES g + RED_TIME_ALL g
                     \<or> py_mod t (CYCLE_LENGTH g) = GREEN_BIKES g + RED_TIME_ALL g + GREEN_CARS g)
                 \<and> lane_type (ls ! i) \<noteq> CAR
                 \<longrightarrow> ls' ! i = ls ! i)
            \<and> (py_mod t (CYCLE_LENGTH g) \<noteq> 0 \<and> py_mod t (CYCLE_LENGTH g) \<noteq> GREEN_BIKES g
                 \<and> py_mod t (CYCLE_LENGTH g) \<noteq> GREEN_BIKES g + RED_TIME_ALL g
                 \<and> py_mod t (CYCLE_LENGTH g) \<noteq> GREEN_BIKES g + RED_TIME_ALL g + GREEN_CARS g
                 \<longrightarrow> ls' ! i = ls ! i)))
   \<and> (update_vehicle_number k l = Inr l' \<longrightarrow>
        green_light l' = green_light l \<and> lane_type l' = lane_type l \<and> business l' = business l)"
proof -
  have 1: "loop_lights g t ls = Inr ls' \<longrightarrow>
      length ls' = length ls
      \<and> (\<forall>i<length ls.
            lane_type (ls' ! i) = lane_type (ls ! i)
            \<and> business (ls' ! i) = business (ls ! i)
            \<and> vehicle_num (ls' ! i) = vehicle_num (ls ! i)
            \<and> (py_mod t (CYCLE_LENGTH g) = 0 \<and> lane_type (ls ! i) \<noteq> CAR \<and> lane_type (ls ! i) \<noteq> BIKE
                 \<longrightarrow> ls' ! i = ls ! i)
            \<and> (py_mod t (CYCLE_LENGTH g) \<noteq> 0 \<and> py_mod t (CYCLE_LENGTH g) = GREEN_BIKES g
                 \<and> lane_type (ls ! i) \<noteq> BIKE
                 \<longrightarrow> ls' ! i = ls ! i)
            \<and> (py_mod t (CYCLE_LENGTH g) \<noteq> 0 \<and> py_mod t (CYCLE_LENGTH g) \<noteq> GREEN_BIKES g
                 \<and> (py_mod t (CYCLE_LENGTH g) = GREEN_BIKES g + RED_TIME_ALL g
                     \<or> py_mod t (CYCLE_LENGTH g) = GREEN_BIKES g + RED_TIME_ALL g + GREEN_CARS g)
                 \<and> lane_type (ls ! i) \<noteq> CAR
                 \<longrightarrow> ls' ! i = ls ! i)
            \<and> (py_mod t (CYCLE_LENGTH g) \<noteq> 0 \<and> py_mod t (CYCLE_LENGTH g) \<noteq> GREEN_BIKES g
                 \<and> py_mod t (CYCLE_LENGTH g) \<noteq> GREEN_BIKES g + RED_TIME_ALL g
                 \<and> py_mod t (CYCLE_LENGTH g) \<noteq> GREEN_BIKES g + RED_TIME_ALL g + GREEN_CARS g
                 \<longrightarrow> ls' ! i = ls ! i))"
  proof (rule impI, rule conjI)
    assume a: "loop_lights g t ls = Inr ls'"
    then show "length ls' = length ls" by (rule loop_lights_length)
    show "\<forall>i<length ls.
            lane_type (ls' ! i) = lane_type (ls ! i)
            \<and> business (ls' ! i) = business (ls ! i)
            \<and> vehicle_num (ls' ! i) = vehicle_num (ls ! i)
            \<and> (py_mod t (CYCLE_LENGTH g) = 0 \<and> lane_type (ls ! i) \<noteq> CAR \<and> lane_type (ls ! i) \<noteq> BIKE
                 \<longrightarrow> ls' ! i = ls ! i)
            \<and> (py_mod t (CYCLE_LENGTH g) \<noteq> 0 \<and> py_mod t (CYCLE_LENGTH g) = GREEN_BIKES g
                 \<and> lane_type (ls ! i) \<noteq> BIKE
                 \<longrightarrow> ls' ! i = ls ! i)
            \<and> (py_mod t (CYCLE_LENGTH g) \<noteq> 0 \<and> py_mod t (CYCLE_LENGTH g) \<noteq> GREEN_BIKES g
                 \<and> (py_mod t (CYCLE_LENGTH g) = GREEN_BIKES g + RED_TIME_ALL g
                     \<or> py_mod t (CYCLE_LENGTH g) = GREEN_BIKES g + RED_TIME_ALL g + GREEN_CARS g)
                 \<and> lane_type (ls ! i) \<noteq> CAR
                 \<longrightarrow> ls' ! i = ls ! i)
            \<and> (py_mod t (CYCLE_LENGTH g) \<noteq> 0 \<and> py_mod t (CYCLE_LENGTH g) \<noteq> GREEN_BIKES g
                 \<and> py_mod t (CYCLE_LENGTH g) \<noteq> GREEN_BIKES g + RED_TIME_ALL g
                 \<and> py_mod t (CYCLE_LENGTH g) \<noteq> GREEN_BIKES g + RED_TIME_ALL g + GREEN_CARS g
                 \<longrightarrow> ls' ! i = ls ! i)"
    proof (rule allI, rule impI)
      fix i assume "i < length ls"
      with a show "lane_type (ls' ! i) = lane_type (ls ! i)
            \<and> business (ls' ! i) = business (ls ! i)
            \<and> vehicle_num (ls' ! i) = vehicle_num (ls ! i)
            \<and> (py_mod t (CYCLE_LENGTH g) = 0 \<and> lane_type (ls ! i) \<noteq> CAR \<and> lane_type (ls ! i) \<noteq> BIKE
                 \<longrightarrow> ls' ! i = ls ! i)
            \<and> (py_mod t (CYCLE_LENGTH g) \<noteq> 0 \<and> py_mod t (CYCLE_LENGTH g) = GREEN_BIKES g
                 \<and> lane_type (ls ! i) \<noteq> BIKE
                 \<longrightarrow> ls' ! i = ls ! i)
            \<and> (py_mod t (CYCLE_LENGTH g) \<noteq> 0 \<and> py_mod t (CYCLE_LENGTH g) \<noteq> GREEN_BIKES g
                 \<and> (py_mod t (CYCLE_LENGTH g) = GREEN_BIKES g + RED_TIME_ALL g
                     \<or> py_mod t (CYCLE_LENGTH g) = GREEN_BIKES g + RED_TIME_ALL g + GREEN_CARS g)
                 \<and> lane_type (ls ! i) \<noteq> CAR
                 \<longrightarrow> ls' ! i = ls ! i)
            \<and> (py_mod t (CYCLE_LENGTH g) \<noteq> 0 \<and> py_mod t (CYCLE_LENGTH g) \<noteq> GREEN_BIKES g
                 \<and> py_mod t (CYCLE_LENGTH g) \<noteq> GREEN_BIKES g + RED_TIME_ALL g
                 \<and> py_mod t (CYCLE_LENGTH g) \<noteq> GREEN_BIKES g + RED_TIME_ALL g + GREEN_CARS g
                 \<longrightarrow> ls' ! i = ls ! i)"
        by (rule loop_lights_frame_nth)
    qed
  qed
  have 2: "update_vehicle_number k l = Inr l' \<longrightarrow>
        green_light l' = green_light l \<and> lane_type l' = lane_type l \<and> business l' = business l"
    using update_vehicle_number_frame[of k l l'] by blast
  from 1 2 show ?thesis by (rule conjI)
qed

theorem frame_effects_witness:
  "loop_lights module_globals 10
      [Lane_init CAR (2 / 5), \<lparr>green_light = True, vehicle_num = 3, lane_type = BIKE, business = 1 / 5\<rparr>]
     = Inr [Lane_init CAR (2 / 5), \<lparr>green_light = False, vehicle_num = 3, lane_type = BIKE, business = 1 / 5\<rparr>]
   \<and> py_mod 10 (CYCLE_LENGTH module_globals) = GREEN_BIKES module_globals
   \<and> lane_type (Lane_init CAR (2 / 5)) \<noteq> BIKE
   \<and> update_vehicle_number 2 \<lparr>green_light = True, vehicle_num = 3, lane_type = BIKE, business = 1 / 5\<rparr>
       = Inr \<lparr>green_light = True, vehicle_num = 3, lane_type = BIKE, business = 1 / 5\<rparr>"
proof -
  let ?ls = "[Lane_init CAR (2 / 5), \<lparr>green_light = True, vehicle_num = 3, lane_type = BIKE, business = 1 / 5\<rparr>]"
  let ?ls' = "[Lane_init CAR (2 / 5), \<lparr>green_light = False, vehicle_num = 3, lane_type = BIKE, business = 1 / 5\<rparr>]"
  let ?l = "\<lparr>green_light = True, vehicle_num = 3, lane_type = BIKE, business = 1 / 5\<rparr>"
  have e: "loop_lights module_globals 10 ?ls = Inr ?ls'"
    by (simp add: loop_lights_def py_mod_def module_globals_def Lane_init_def CAR_def BIKE_def)
  have u: "update_vehicle_number 2 ?l = Inr ?l"
    by (simp add: update_vehicle_number_def poisson_def POISSON_LAM_MAX_def BIKE_def)
  from frame_effects[of module_globals 10 ?ls ?ls' 2 ?l ?l] e u
  show ?thesis
    by (simp add: py_mod_def module_globals_def Lane_init_def CAR_def BIKE_def)
qed

section \<open>Parsing the configuration\<close>

lemma parse_lanes_ok:
  "\<forall>d\<in>set ds. j_type d \<noteq> None \<and> j_business d \<noteq> None \<Longrightarrow>
     parse_lanes ds acc =
       Inr (acc @ map (\<lambda>d. Lane_init (if j_type d = Some ''car'' then CAR else BIKE)
                                   (the (j_business d))) ds)"
proof (induction ds arbitrary: acc)
  case Nil then show ?case by simp
next
  case (Cons a ds)
  from Cons.prems obtain t b where tb: "j_type a = Some t" "j_business a = Some b" by auto
  from Cons.prems have r: "\<forall>d\<in>set ds. j_type d \<noteq> None \<and> j_business d \<noteq> None" by simp
  show ?case
    using tb Cons.IH[OF r, of "acc @ [Lane_init (if t = ''car'' then CAR else BIKE) b]"]
    by simp
qed

lemma parse_lanes_Inr:
  "parse_lanes ds acc = Inr ls \<Longrightarrow> \<forall>d\<in>set ds. j_type d \<noteq> None \<and> j_business d \<noteq> None"
proof (induction ds arbitrary: acc)
  case Nil then show ?case by simp
next
  case (Cons a ds)
  from Cons.prems obtain t b where tb: "j_type a = Some t" "j_business a = Some b"
    and r: "parse_lanes ds (acc @ [Lane_init (if t = ''car'' then CAR else BIKE) b]) = Inr ls"
    by (auto split: option.splits)
  from Cons.IH[OF r] tb show ?case by simp
qed

lemma parse_Loaded:
  assumes "j_lanes j = Some ds" and "\<forall>d\<in>set ds. j_type d \<noteq> None \<and> j_business d \<noteq> None"
  shows "parse g (Loaded j) =
     Inr (\<lparr>GREEN_CARS = (case j_GREEN_CARS j of Some v \<Rightarrow> v | None \<Rightarrow> GREEN_CARS g),
           GREEN_BIKES = (case j_GREEN_BIKES j of Some v \<Rightarrow> v | None \<Rightarrow> GREEN_BIKES g),
           RED_TIME_ALL = (case j_RED_TIME_ALL j of Some v \<Rightarrow> v | None \<Rightarrow> RED_TIME_ALL g),
           CYCLE_LENGTH = (case j_GREEN_CARS j of Some v \<Rightarrow> v | None \<Rightarrow> GREEN_CARS g)
              + (case j_GREEN_BIKES j of Some v \<Rightarrow> v | None \<Rightarrow> GREEN_BIKES g)
              + 2 * (case j_RED_TIME_ALL j of Some v \<Rightarrow> v | None \<Rightarrow> RED_TIME_ALL g),
           SIM_LENGTH = (case j_SIM_LENGTH j of Some v \<Rightarrow> v | None \<Rightarrow> SIM_LENGTH g)\<rparr>,
          map (\<lambda>d. Lane_init (if j_type d = Some ''car'' then CAR else BIKE)
                              (the (j_business d))) ds)"
  using assms(1) parse_lanes_ok[OF assms(2), of "[]"]
  by (simp add: parse_def Let_def)

lemma parse_lane_types:
  assumes "parse g src = Inr (g', ls)"
  shows "\<forall>l\<in>set ls. (lane_type l = CAR \<or> lane_type l = BIKE) \<and> \<not> green_light l \<and> vehicle_num l = 0"
proof (cases src)
  case (Loaded j)
  show ?thesis
  proof (cases "j_lanes j")
    case None
    with Loaded assms show ?thesis by (simp add: parse_def Let_def)
  next
    case (Some ds)
    with Loaded assms obtain ls0 where p: "parse_lanes ds [] = Inr ls0"
      by (auto simp: parse_def Let_def split: sum.splits)
    note ok = parse_lanes_Inr[OF p]
    from parse_Loaded[OF Some ok, of g] assms Loaded
    have "ls = map (\<lambda>d. Lane_init (if j_type d = Some ''car'' then CAR else BIKE)
                              (the (j_business d))) ds" by simp
    then show ?thesis by (auto simp: Lane_init_def)
  qed
qed (use assms in \<open>simp_all add: parse_def\<close>)

lemma parse_cycle:
  assumes "parse module_globals src = Inr (g', ls)"
  shows "CYCLE_LENGTH g' = GREEN_CARS g' + GREEN_BIKES g' + 2 * RED_TIME_ALL g'"
  using assms
  by (cases src) (auto simp: parse_def Let_def module_globals_def split: option.splits sum.splits)

text \<open>
  Claim C10. When every lane descriptor of a decoded configuration holds both keys,
  \<open>parse\<close> returns one lane for each descriptor, in order; the lane is a Car lane when
  the \<^verbatim>\<open>"type"\<close> string is exactly \<^verbatim>\<open>"car"\<close> and a Bike lane for every other string, and no
  string is rejected. A Bike lane's type is the number 2, which is what
  \<open>update_vehicle_number\<close> takes from a green Bike lane's queue when more than one vehicle
  waits.
\<close>

theorem unrecognised_type_is_bike:
  assumes "j_lanes j = Some ds" and "\<forall>d\<in>set ds. j_type d \<noteq> None \<and> j_business d \<noteq> None"
  shows "(\<exists>g' ls. parse g (Loaded j) = Inr (g', ls) \<and> length ls = length ds
           \<and> (\<forall>i<length ds.
                 (j_type (ds ! i) = Some ''car'' \<longrightarrow> lane_type (ls ! i) = CAR)
               \<and> (j_type (ds ! i) \<noteq> Some ''car'' \<longrightarrow> lane_type (ls ! i) = BIKE)))
         \<and> CAR = 1 \<and> BIKE = 2
         \<and> (\<forall>l k. lane_type l = BIKE \<and> green_light l \<and> 1 < vehicle_num l + k
                 \<and> 0 \<le> business l \<and> business l \<le> POISSON_LAM_MAX
               \<longrightarrow> update_vehicle_number k l = Inr (l\<lparr>vehicle_num := vehicle_num l + k - 2\<rparr>))"
proof (intro conjI)
  show "\<exists>g' ls. parse g (Loaded j) = Inr (g', ls) \<and> length ls = length ds
           \<and> (\<forall>i<length ds.
                 (j_type (ds ! i) = Some ''car'' \<longrightarrow> lane_type (ls ! i) = CAR)
               \<and> (j_type (ds ! i) \<noteq> Some ''car'' \<longrightarrow> lane_type (ls ! i) = BIKE))"
    unfolding parse_Loaded[OF assms] by (simp add: Lane_init_def)
  show "CAR = 1" by (simp add: CAR_def)
  show "BIKE = 2" by (simp add: BIKE_def)
  show "\<forall>l k. lane_type l = BIKE \<and> green_light l \<and> 1 < vehicle_num l + k
                 \<and> 0 \<le> business l \<and> business l \<le> POISSON_LAM_MAX
               \<longrightarrow> update_vehicle_number k l = Inr (l\<lparr>vehicle_num := vehicle_num l + k - 2\<rparr>)"
    by (simp add: update_vehicle_number_def poisson_def Let_def BIKE_def)
qed

theorem unrecognised_type_is_bike_witness:
  "list_all (\<lambda>d. j_type d \<noteq> None \<and> j_business d \<noteq> None)
     [\<lparr>j_type = Some ''Car'', j_business = Some 1\<rparr>,
      \<lparr>j_type = Some ''CAR'', j_business = Some 1\<rparr>,
      \<lparr>j_type = Some ''bike'', j_business = Some 1\<rparr>,
      \<lparr>j_type = Some ''truck'', j_business = Some 1\<rparr>,
      \<lparr>j_type = Some ''car'', j_business = Some 1\<rparr>]
   \<and> (\<exists>g' ls. parse module_globals
        (Loaded \<lparr>j_GREEN_CARS = None, j_GREEN_BIKES = None, j_RED_TIME_ALL = None,
                 j_SIM_LENGTH = None,
                 j_lanes = Some
                   [\<lparr>j_type = Some ''Car'', j_business = Some 1\<rparr>,
                    \<lparr>j_type = Some ''CAR'', j_business = Some 1\<rparr>,
                    \<lparr>j_type = Some ''bike'', j_business = Some 1\<rparr>,
                    \<lparr>j_type = Some ''truck'', j_business = Some 1\<rparr>,
                    \<lparr>j_type = Some ''car'', j_business = Some 1\<rparr>]\<rparr>)
         = Inr (g', ls)
       \<and> map lane_type ls = [BIKE, BIKE, BIKE, BIKE, CAR])"
proof -
  let ?ds = "[\<lparr>j_type = Some ''Car'', j_business = Some 1\<rparr>,
      \<lparr>j_type = Some ''CAR'', j_business = Some 1\<rparr>,
      \<lparr>j_type = Some ''bike'', j_business = Some 1\<rparr>,
      \<lparr>j_type = Some ''truck'', j_business = Some 1\<rparr>,
      \<lparr>j_type = Some ''car'', j_business = Some (1 :: real)\<rparr>]"
  let ?j = "\<lparr>j_GREEN_CARS = None, j_GREEN_BIKES = None, j_RED_TIME_ALL = None,
                 j_SIM_LENGTH = None, j_lanes = Some ?ds\<rparr>"
  have a: "j_lanes ?j = Some ?ds" by simp
  have b: "\<forall>d\<in>set ?ds. j_type d \<noteq> None \<and> j_business d \<noteq> None" by simp
  have l: "list_all (\<lambda>d. j_type d \<noteq> None \<and> j_business d \<noteq> None) ?ds" by simp
  from unrecognised_type_is_bike[OF a b, of module_globals] obtain g' ls where
    q: "parse module_globals (Loaded ?j) = Inr (g', ls)" and n: "length ls = length ?ds"
    and t: "\<forall>i<length ?ds.
                 (j_type (?ds ! i) = Some ''car'' \<longrightarrow> lane_type (ls ! i) = CAR)
               \<and> (j_type (?ds ! i) \<noteq> Some ''car'' \<longrightarrow> lane_type (ls ! i) = BIKE)"
    by blast
  from n have n5: "length ls = 5" by simp
  from t[rule_format, of 0] t[rule_format, of 1] t[rule_format, of 2] t[rule_format, of 3]
    t[rule_format, of 4]
  have "lane_type (ls ! 0) = BIKE" "lane_type (ls ! 1) = BIKE" "lane_type (ls ! 2) = BIKE"
    "lane_type (ls ! 3) = BIKE" "lane_type (ls ! 4) = CAR"
    by simp_all
  with n5 have "map lane_type ls = [BIKE, BIKE, BIKE, BIKE, CAR]"
    by (intro nth_equalityI) (auto simp add: less_Suc_eq numeral_eq_Suc)
  with q have e: "\<exists>g' ls. parse module_globals (Loaded ?j) = Inr (g', ls)
       \<and> map lane_type ls = [BIKE, BIKE, BIKE, BIKE, CAR]"
    by (intro exI[of _ g'] exI[of _ ls] conjI) assumption+
  from l e show ?thesis by (rule conjI)
qed




section \<open>The lights along the run\<close>

text \<open>
  When the durations are whole numbers the phase of an integer tick is \<open>mod\<close> on the
  integers, and the comparisons of the chain are comparisons of integers.
\<close>

lemma loop_lights_of_int:
  assumes ints: "GREEN_BIKES g = of_int gb" "RED_TIME_ALL g = of_int r" "GREEN_CARS g = of_int gc"
      "CYCLE_LENGTH g = of_int c"
    and c: "c \<noteq> 0"
  shows "loop_lights g (of_int t) ls =
     Inr (if t mod c = 0 then set_lanes BIKE True (set_lanes CAR False ls)
          else if t mod c = gb then set_lanes BIKE False ls
          else if t mod c = gb + r then set_lanes CAR True ls
          else if t mod c = gb + r + gc then set_lanes CAR False ls
          else ls)"
proof -
  have e: "(of_int (t mod c) = (of_int gb :: real)) = (t mod c = gb)"
    "(of_int (t mod c) = (of_int gb :: real) + of_int r) = (t mod c = gb + r)"
    "(of_int (t mod c) = (of_int gb :: real) + of_int r + of_int gc) = (t mod c = gb + r + gc)"
    "(of_int (t mod c) = (0 :: real)) = (t mod c = 0)"
    using of_int_eq_iff[of "t mod c" gb, where ?'a = real]
      of_int_eq_iff[of "t mod c" "gb + r", where ?'a = real]
      of_int_eq_iff[of "t mod c" "gb + r + gc", where ?'a = real]
    by simp_all
  from c have c': "(of_int c :: real) \<noteq> 0" by simp
  show ?thesis
    unfolding loop_lights_def Let_def ints py_mod_of_int e using c' by simp
qed

lemma mod_pred:
  fixes t c :: int
  assumes "0 < c" and "t mod c \<noteq> 0"
  shows "(t - 1) mod c = t mod c - 1"
proof -
  have "0 \<le> t mod c" "t mod c < c" using assms(1) by simp_all
  with assms(2) have r: "0 \<le> t mod c - 1" "t mod c - 1 < c" by linarith+
  have "(t - 1) mod c = (t mod c - 1) mod c" by (simp add: mod_diff_left_eq)
  also have "\<dots> = t mod c - 1" using r by (rule mod_pos_pos_trivial)
  finally show ?thesis .
qed

lemma lane_light_step:
  assumes ints: "GREEN_BIKES g = of_int gb" "RED_TIME_ALL g = of_int r" "GREEN_CARS g = of_int gc"
      "CYCLE_LENGTH g = of_int c"
    and pos: "0 < gb" "0 < r" "0 < gc"
    and cyc: "c = gc + gb + 2 * r"
    and ll: "loop_lights g (of_int t) ls = Inr ls'" and i: "i < length ls"
    and prev: "t mod c \<noteq> 0 \<Longrightarrow>
       (lane_type (ls ! i) = BIKE \<longrightarrow> green_light (ls ! i) = ((t - 1) mod c < gb))
         \<and> (lane_type (ls ! i) = CAR \<longrightarrow>
              green_light (ls ! i) = (gb + r \<le> (t - 1) mod c \<and> (t - 1) mod c < gb + r + gc))"
  shows "(lane_type (ls' ! i) = BIKE \<longrightarrow> green_light (ls' ! i) = (t mod c < gb))
         \<and> (lane_type (ls' ! i) = CAR \<longrightarrow>
              green_light (ls' ! i) = (gb + r \<le> t mod c \<and> t mod c < gb + r + gc))"
proof -
  define p where "p = t mod c"
  have c: "0 < c" using pos cyc by linarith
  then have c0: "c \<noteq> 0" by simp
  have cb: "CAR \<noteq> BIKE" by (simp add: CAR_def BIKE_def)
  have "loop_lights g (of_int t) ls =
      Inr (if p = 0 then set_lanes BIKE True (set_lanes CAR False ls)
          else if p = gb then set_lanes BIKE False ls
          else if p = gb + r then set_lanes CAR True ls
          else if p = gb + r + gc then set_lanes CAR False ls
          else ls)"
    unfolding p_def by (rule loop_lights_of_int[OF ints c0])
  from this[unfolded ll]
  have ls': "ls' = (if p = 0 then set_lanes BIKE True (set_lanes CAR False ls)
          else if p = gb then set_lanes BIKE False ls
          else if p = gb + r then set_lanes CAR True ls
          else if p = gb + r + gc then set_lanes CAR False ls
          else ls)"
    by (rule Inr_inject)
  have n: "ls' ! i =
     (if p = 0 then
        (if lane_type (ls ! i) = BIKE then (ls ! i)\<lparr>green_light := True\<rparr>
         else if lane_type (ls ! i) = CAR then (ls ! i)\<lparr>green_light := False\<rparr>
         else ls ! i)
      else if p = gb then
        (if lane_type (ls ! i) = BIKE then (ls ! i)\<lparr>green_light := False\<rparr> else ls ! i)
      else if p = gb + r then
        (if lane_type (ls ! i) = CAR then (ls ! i)\<lparr>green_light := True\<rparr> else ls ! i)
      else if p = gb + r + gc then
        (if lane_type (ls ! i) = CAR then (ls ! i)\<lparr>green_light := False\<rparr> else ls ! i)
      else ls ! i)"
    unfolding ls' using i cb by (simp add: set_lanes_nth set_lanes_length)
  show ?thesis
  proof (cases "p = 0")
    case True
    with n pos cb show ?thesis
      unfolding p_def[symmetric]
      by auto
  next
    case False
    then have q: "(t - 1) mod c = p - 1"
      using mod_pred[OF c] by (simp add: p_def)
    from False prev have pv:
      "lane_type (ls ! i) = BIKE \<longrightarrow> green_light (ls ! i) = (p - 1 < gb)"
      "lane_type (ls ! i) = CAR \<longrightarrow> green_light (ls ! i) = (gb + r \<le> p - 1 \<and> p - 1 < gb + r + gc)"
      by (simp_all add: p_def[symmetric] q)
    have "0 \<le> p" using c by (simp add: p_def)
    with False have p1: "1 \<le> p" by linarith
    show ?thesis
      unfolding p_def[symmetric]
    proof (intro conjI impI)
      assume b: "lane_type (ls' ! i) = BIKE"
      then have b0: "lane_type (ls ! i) = BIKE" using n cb by (auto split: if_splits)
      show "green_light (ls' ! i) = (p < gb)"
      proof (cases "p = gb")
        case True with n b0 False show ?thesis by simp
      next
        case ne: False
        with n b0 False cb have "green_light (ls' ! i) = green_light (ls ! i)"
          by (auto split: if_splits)
        with pv(1) b0 ne show ?thesis by auto
      qed
    next
      assume b: "lane_type (ls' ! i) = CAR"
      then have b0: "lane_type (ls ! i) = CAR" using n cb by (auto split: if_splits)
      show "green_light (ls' ! i) = (gb + r \<le> p \<and> p < gb + r + gc)"
      proof (cases "p = gb + r \<or> p = gb + r + gc")
        case True with n b0 False pos show ?thesis by auto
      next
        case ne: False
        with n b0 False cb have "green_light (ls' ! i) = green_light (ls ! i)"
          by (auto split: if_splits)
        with pv(2) b0 ne show ?thesis by auto
      qed
    qed
  qed
qed

lemma map_eq_nth:
  "map f xs = map f ys \<Longrightarrow> i < length xs \<Longrightarrow> f (xs ! i) = f (ys ! i)"
  by (metis length_map nth_map)

lemma loop_light_inv:
  assumes ints: "GREEN_BIKES g = of_int gb" "RED_TIME_ALL g = of_int r" "GREEN_CARS g = of_int gc"
      "CYCLE_LENGTH g = of_int c"
    and pos: "0 < gb" "0 < r" "0 < gc"
    and cyc: "c = gc + gb + 2 * r"
    and l: "loop g d t self = Inr self'"
    and prev: "t mod c \<noteq> 0 \<Longrightarrow>
       \<forall>x\<in>set (lanes self).
         (lane_type x = BIKE \<longrightarrow> green_light x = ((t - 1) mod c < gb))
         \<and> (lane_type x = CAR \<longrightarrow>
              green_light x = (gb + r \<le> (t - 1) mod c \<and> (t - 1) mod c < gb + r + gc))"
  shows "\<forall>x\<in>set (lanes self').
         (lane_type x = BIKE \<longrightarrow> green_light x = (t mod c < gb))
         \<and> (lane_type x = CAR \<longrightarrow>
              green_light x = (gb + r \<le> t mod c \<and> t mod c < gb + r + gc))"
proof
  fix x assume x: "x \<in> set (lanes self')"
  from l obtain ls1 ls2 rows where
    1: "loop_lights g (of_int t) (lanes self) = Inr ls1" and
    2: "update_lanes d 0 ls1 = Inr ls2" and
    4: "self' = self\<lparr>lanes := ls2, traffic_data := rows\<rparr>"
    by (rule loop_decomp)
  note f = update_lanes_frame[OF 2]
  have len1: "length ls1 = length (lanes self)" using 1 by (rule loop_lights_length)
  have len2: "length ls2 = length ls1" using f by (metis length_map)
  from x 4 obtain i where i: "i < length ls2" and xi: "x = ls2 ! i"
    by (auto simp: in_set_conv_nth)
  have g2: "green_light (ls2 ! i) = green_light (ls1 ! i)"
    using f i by (intro map_eq_nth[of green_light ls2 ls1]) simp_all
  have t2: "lane_type (ls2 ! i) = lane_type (ls1 ! i)"
    using f i by (intro map_eq_nth[of lane_type ls2 ls1]) simp_all
  have i0: "i < length (lanes self)" using i len1 len2 by simp
  then have mem: "lanes self ! i \<in> set (lanes self)" by simp
  have "(lane_type (ls1 ! i) = BIKE \<longrightarrow> green_light (ls1 ! i) = (t mod c < gb))
         \<and> (lane_type (ls1 ! i) = CAR \<longrightarrow>
              green_light (ls1 ! i) = (gb + r \<le> t mod c \<and> t mod c < gb + r + gc))"
    using ints pos cyc 1 i0
  proof (rule lane_light_step)
    assume "t mod c \<noteq> 0"
    from prev[OF this] mem
    show "(lane_type (lanes self ! i) = BIKE \<longrightarrow> green_light (lanes self ! i) = ((t - 1) mod c < gb))
         \<and> (lane_type (lanes self ! i) = CAR \<longrightarrow>
              green_light (lanes self ! i) = (gb + r \<le> (t - 1) mod c \<and> (t - 1) mod c < gb + r + gc))"
      by blast
  qed
  then show "(lane_type x = BIKE \<longrightarrow> green_light x = (t mod c < gb))
         \<and> (lane_type x = CAR \<longrightarrow>
              green_light x = (gb + r \<le> t mod c \<and> t mod c < gb + r + gc))"
    unfolding xi g2 t2 .
qed

lemma run_light_inv:
  assumes ints: "GREEN_BIKES g = of_int gb" "RED_TIME_ALL g = of_int r" "GREEN_CARS g = of_int gc"
      "CYCLE_LENGTH g = of_int c"
    and pos: "0 < gb" "0 < r" "0 < gc"
    and cyc: "c = gc + gb + 2 * r"
  shows "run_loop g d (Suc n) self = Inr self' \<Longrightarrow>
     \<forall>x\<in>set (lanes self').
         (lane_type x = BIKE \<longrightarrow> green_light x = (int n mod c < gb))
         \<and> (lane_type x = CAR \<longrightarrow>
              green_light x = (gb + r \<le> int n mod c \<and> int n mod c < gb + r + gc))"
proof (induction n arbitrary: self')
  case 0
  then have l: "loop g (d 0) (int 0) self = Inr self'" by simp
  show ?case
    using ints pos cyc l by (rule loop_light_inv) simp
next
  case (Suc n)
  from Suc.prems obtain s1 where r: "run_loop g d (Suc n) self = Inr s1"
    and l: "loop g (d (Suc n)) (int (Suc n)) s1 = Inr self'"
    by (auto split: sum.splits simp del: run_loop.simps(2) simp add: run_loop.simps(2)[of g d "Suc n"])
  note ih = Suc.IH[OF r]
  show ?case
    using ints pos cyc l
  proof (rule loop_light_inv)
    have "int (Suc n) - 1 = int n" by simp
    with ih show "\<forall>x\<in>set (lanes s1).
         (lane_type x = BIKE \<longrightarrow> green_light x = ((int (Suc n) - 1) mod c < gb))
         \<and> (lane_type x = CAR \<longrightarrow>
              green_light x = (gb + r \<le> (int (Suc n) - 1) mod c \<and> (int (Suc n) - 1) mod c < gb + r + gc))"
      by (simp only:)
  qed
qed

section \<open>The start of the run\<close>

lemma numbered_length: "length (numbered prefix n) = n"
  by (simp add: numbered_def)

lemma fallback_lanes:
  "map fallback_lane [0..<lane_count] =
     [Lane_init CAR (2 / 5), Lane_init CAR (3 / 10), Lane_init BIKE (1 / 5), Lane_init BIKE (1 / 10)]"
  by (simp add: lane_count_def fallback_lane_def upt_conv_Cons)

lemma Main_setup_Nil:
  "Main_setup [] =
     \<lparr>columns = [''Bike lanes'', ''Bikes 1'', ''Bikes 2'', ''Car lanes'', ''Cars 1'', ''Cars 2''],
      lanes = [Lane_init CAR (2 / 5), Lane_init CAR (3 / 10),
               Lane_init BIKE (1 / 5), Lane_init BIKE (1 / 10)],
      traffic_data = []\<rparr>"
  by (simp add: Main_setup_def fallback_lanes)

lemma Main_setup_lanes:
  "lanes (Main_setup parsed) =
     (if parsed = [] then [Lane_init CAR (2 / 5), Lane_init CAR (3 / 10),
               Lane_init BIKE (1 / 5), Lane_init BIKE (1 / 10)] else parsed)"
  by (simp add: Main_setup_def fallback_lanes)

lemma Main_setup_rows: "traffic_data (Main_setup parsed) = []"
  by (simp add: Main_setup_def)

lemma Main_setup_types:
  assumes "\<forall>l\<in>set parsed. lane_type l = CAR \<or> lane_type l = BIKE"
  shows "\<forall>l\<in>set (lanes (Main_setup parsed)). lane_type l = CAR \<or> lane_type l = BIKE"
  using assms by (simp add: Main_setup_lanes Lane_init_def)

lemma Main_setup_business:
  assumes "\<forall>l\<in>set parsed. 0 \<le> business l \<and> business l \<le> POISSON_LAM_MAX"
  shows "\<forall>l\<in>set (lanes (Main_setup parsed)). 0 \<le> business l \<and> business l \<le> POISSON_LAM_MAX"
  using assms by (simp add: Main_setup_lanes Lane_init_def POISSON_LAM_MAX_def)

lemma filter_nonempty: "(\<exists>x\<in>set xs. P x) \<Longrightarrow> 0 < length (filter P xs)"
  by (induction xs) auto

lemma Main_setup_width:
  assumes "parsed = [] \<or> ((\<exists>l\<in>set parsed. lane_type l = CAR) \<and> (\<exists>l\<in>set parsed. lane_type l = BIKE))"
  shows "length (final_row (Main_setup parsed)) = length (columns (Main_setup parsed))"
proof (cases "parsed = []")
  case True
  have cb: "CAR \<noteq> BIKE" by (simp add: CAR_def BIKE_def)
  show ?thesis
    unfolding True Main_setup_Nil final_row_width
    using cb by (simp add: bikes_def cars_def Lane_init_def)
next
  case False
  with assms have ec: "\<exists>l\<in>set parsed. lane_type l = CAR"
    and eb: "\<exists>l\<in>set parsed. lane_type l = BIKE"
    by simp_all
  from ec have c: "0 < length (filter (\<lambda>a. lane_type a = CAR) parsed)"
    by (rule filter_nonempty)
  from eb have b: "0 < length (filter (\<lambda>a. lane_type a = BIKE) parsed)"
    by (rule filter_nonempty)
  from False have "lanes (Main_setup parsed) = parsed"
    "length (columns (Main_setup parsed)) =
       2 + length (filter (\<lambda>a. lane_type a = BIKE) parsed)
         + length (filter (\<lambda>a. lane_type a = CAR) parsed)"
    by (simp_all add: Main_setup_def numbered_length)
  with b c show ?thesis
    unfolding final_row_width by (simp add: bikes_def cars_def)
qed

lemma types_map:
  assumes "map lane_type xs = map lane_type ys"
    and "\<forall>l\<in>set ys. lane_type l = CAR \<or> lane_type l = BIKE"
  shows "\<forall>l\<in>set xs. lane_type l = CAR \<or> lane_type l = BIKE"
proof -
  have "(\<forall>l\<in>set ys. lane_type l = CAR \<or> lane_type l = BIKE)
      = (\<forall>v\<in>set (map lane_type ys). v = CAR \<or> v = BIKE)" by simp
  also have "\<dots> = (\<forall>v\<in>set (map lane_type xs). v = CAR \<or> v = BIKE)"
    by (simp only: assms(1))
  also have "\<dots> = (\<forall>l\<in>set xs. lane_type l = CAR \<or> lane_type l = BIKE)" by simp
  finally show ?thesis using assms(2) by simp
qed

lemma parse_Missing: "parse g Missing = Inr (g, [])" "parse g Malformed = Inr (g, [])"
  by (simp_all add: parse_def)

lemma loop_count_default: "nat (py_int (3600 * SIM_LENGTH module_globals)) = 360"
  by (simp add: py_int_def module_globals_def)

section \<open>Signal exclusivity\<close>

text \<open>
  Claim C5, as stated, fails for durations that are strictly positive but not whole
  numbers, which \<open>parse\<close> accepts. With Bike green 2.5, all red 0.5 and Car green 1 the
  cycle is 4.5; no integer tick has phase 2.5, so the Bike lanes are not switched to red;
  at tick 3 the phase is 3 = 2.5 + 0.5 and the Car lanes turn green while the Bike lanes
  still are; at tick 4 the phase is 4, in the all-red interval from 4 to 4.5, and the
  Bike lanes are green. (These numbers and their sums are exact as floats.)
\<close>

theorem signal_exclusivity_counterexample:
  "parse module_globals
     (Loaded \<lparr>j_GREEN_CARS = Some 1, j_GREEN_BIKES = Some (5 / 2), j_RED_TIME_ALL = Some (1 / 2),
              j_SIM_LENGTH = None,
              j_lanes = Some [\<lparr>j_type = Some ''car'', j_business = Some 1\<rparr>,
                              \<lparr>j_type = Some ''bike'', j_business = Some 1\<rparr>]\<rparr>)
    = Inr (\<lparr>GREEN_CARS = 1, GREEN_BIKES = 5 / 2, RED_TIME_ALL = 1 / 2, CYCLE_LENGTH = 9 / 2,
        SIM_LENGTH = 1 / 10\<rparr>,
           [Lane_init CAR 1, Lane_init BIKE 1])
   \<and> run_loop \<lparr>GREEN_CARS = 1, GREEN_BIKES = 5 / 2, RED_TIME_ALL = 1 / 2, CYCLE_LENGTH = 9 / 2,
        SIM_LENGTH = 1 / 10\<rparr>
        (\<lambda>t i. 0) (Suc 3) (Main_setup [Lane_init CAR 1, Lane_init BIKE 1])
      = Inr \<lparr>columns = [''bikelight'', ''Bikes 1'', ''carlight'', ''Cars 1''],
          lanes = [\<lparr>green_light = True, vehicle_num = 0, lane_type = CAR, business = 1\<rparr>,
                   \<lparr>green_light = True, vehicle_num = 0, lane_type = BIKE, business = 1\<rparr>],
          traffic_data =
            [(0, [Light True, Count 0, Light False, Count 0]),
             (1, [Light True, Count 0, Light False, Count 0]),
             (2, [Light True, Count 0, Light False, Count 0]),
             (3, [Light True, Count 0, Light True, Count 0])]\<rparr>
   \<and> run_loop \<lparr>GREEN_CARS = 1, GREEN_BIKES = 5 / 2, RED_TIME_ALL = 1 / 2, CYCLE_LENGTH = 9 / 2,
        SIM_LENGTH = 1 / 10\<rparr>
        (\<lambda>t i. 0) (Suc 4) (Main_setup [Lane_init CAR 1, Lane_init BIKE 1])
      = Inr \<lparr>columns = [''bikelight'', ''Bikes 1'', ''carlight'', ''Cars 1''],
          lanes = [\<lparr>green_light = False, vehicle_num = 0, lane_type = CAR, business = 1\<rparr>,
                   \<lparr>green_light = True, vehicle_num = 0, lane_type = BIKE, business = 1\<rparr>],
          traffic_data =
            [(0, [Light True, Count 0, Light False, Count 0]),
             (1, [Light True, Count 0, Light False, Count 0]),
             (2, [Light True, Count 0, Light False, Count 0]),
             (3, [Light True, Count 0, Light True, Count 0]),
             (4, [Light True, Count 0, Light False, Count 0])]\<rparr>
   \<and> py_mod 4 (9 / 2) = 4 \<and> (5 / 2 + 1 / 2 + 1 :: real) \<le> 4 \<and> (4 :: real) < 9 / 2"
proof -
  have 1: "parse module_globals
     (Loaded \<lparr>j_GREEN_CARS = Some 1, j_GREEN_BIKES = Some (5 / 2), j_RED_TIME_ALL = Some (1 / 2),
              j_SIM_LENGTH = None,
              j_lanes = Some [\<lparr>j_type = Some ''car'', j_business = Some 1\<rparr>,
                              \<lparr>j_type = Some ''bike'', j_business = Some 1\<rparr>]\<rparr>)
    = Inr (\<lparr>GREEN_CARS = 1, GREEN_BIKES = 5 / 2, RED_TIME_ALL = 1 / 2, CYCLE_LENGTH = 9 / 2,
        SIM_LENGTH = 1 / 10\<rparr>,
           [Lane_init CAR 1, Lane_init BIKE 1])"
    by (simp add: parse_def Let_def module_globals_def)
  have 2: "run_loop \<lparr>GREEN_CARS = 1, GREEN_BIKES = 5 / 2, RED_TIME_ALL = 1 / 2, CYCLE_LENGTH = 9 / 2,
        SIM_LENGTH = 1 / 10\<rparr>
        (\<lambda>t i. 0) (Suc 3) (Main_setup [Lane_init CAR 1, Lane_init BIKE 1])
      = Inr \<lparr>columns = [''bikelight'', ''Bikes 1'', ''carlight'', ''Cars 1''],
          lanes = [\<lparr>green_light = True, vehicle_num = 0, lane_type = CAR, business = 1\<rparr>,
                   \<lparr>green_light = True, vehicle_num = 0, lane_type = BIKE, business = 1\<rparr>],
          traffic_data =
            [(0, [Light True, Count 0, Light False, Count 0]),
             (1, [Light True, Count 0, Light False, Count 0]),
             (2, [Light True, Count 0, Light False, Count 0]),
             (3, [Light True, Count 0, Light True, Count 0])]\<rparr>"
    by code_simp
  have 3: "run_loop \<lparr>GREEN_CARS = 1, GREEN_BIKES = 5 / 2, RED_TIME_ALL = 1 / 2, CYCLE_LENGTH = 9 / 2,
        SIM_LENGTH = 1 / 10\<rparr>
        (\<lambda>t i. 0) (Suc 4) (Main_setup [Lane_init CAR 1, Lane_init BIKE 1])
      = Inr \<lparr>columns = [''bikelight'', ''Bikes 1'', ''carlight'', ''Cars 1''],
          lanes = [\<lparr>green_light = False, vehicle_num = 0, lane_type = CAR, business = 1\<rparr>,
                   \<lparr>green_light = True, vehicle_num = 0, lane_type = BIKE, business = 1\<rparr>],
          traffic_data =
            [(0, [Light True, Count 0, Light False, Count 0]),
             (1, [Light True, Count 0, Light False, Count 0]),
             (2, [Light True, Count 0, Light False, Count 0]),
             (3, [Light True, Count 0, Light True, Count 0]),
             (4, [Light True, Count 0, Light False, Count 0])]\<rparr>"
    by code_simp
  have 4: "py_mod 4 (9 / 2) = 4" "(5 / 2 + 1 / 2 + 1 :: real) \<le> 4" "(4 :: real) < 9 / 2"
    by (simp_all add: py_mod_def)
  from 1 2 3 4 show ?thesis by (intro conjI)
qed

text \<open>
  Claim C5, amended. Take the constants and lanes that parsing returns, with the three
  durations strictly positive whole numbers, and any tick \<open>n\<close> that the run reaches (the
  loop has run ticks \<open>0\<close> to \<open>n\<close> without error). Then no Car lane and Bike lane are
  green together, and when the phase of tick \<open>n\<close> lies in one of the two all-red
  intervals every lane is red. More precisely every lane is a Bike lane that is green
  exactly in \<open>[0, GREEN_BIKES)\<close> or a Car lane that is green exactly in
  \<open>[GREEN_BIKES + RED_TIME_ALL, GREEN_BIKES + RED_TIME_ALL + GREEN_CARS)\<close>.
\<close>

theorem signal_exclusivity:
  assumes p: "parse module_globals src = Inr (g, parsed)"
    and whole: "GREEN_BIKES g \<in> \<int>" "RED_TIME_ALL g \<in> \<int>" "GREEN_CARS g \<in> \<int>"
    and pos: "0 < GREEN_BIKES g" "0 < RED_TIME_ALL g" "0 < GREEN_CARS g"
    and r: "run_loop g d (Suc n) (Main_setup parsed) = Inr self'"
  shows "\<not> (\<exists>c\<in>set (lanes self'). \<exists>b\<in>set (lanes self').
              lane_type c = CAR \<and> green_light c \<and> lane_type b = BIKE \<and> green_light b)
     \<and> ((GREEN_BIKES g \<le> py_mod (real n) (CYCLE_LENGTH g)
            \<and> py_mod (real n) (CYCLE_LENGTH g) < GREEN_BIKES g + RED_TIME_ALL g)
          \<or> (GREEN_BIKES g + RED_TIME_ALL g + GREEN_CARS g \<le> py_mod (real n) (CYCLE_LENGTH g)
            \<and> py_mod (real n) (CYCLE_LENGTH g) < CYCLE_LENGTH g)
        \<longrightarrow> (\<forall>l\<in>set (lanes self'). \<not> green_light l))
     \<and> (\<forall>l\<in>set (lanes self').
          (lane_type l = BIKE
             \<and> green_light l = (py_mod (real n) (CYCLE_LENGTH g) < GREEN_BIKES g))
          \<or> (lane_type l = CAR
               \<and> green_light l = (GREEN_BIKES g + RED_TIME_ALL g \<le> py_mod (real n) (CYCLE_LENGTH g)
                    \<and> py_mod (real n) (CYCLE_LENGTH g)
                         < GREEN_BIKES g + RED_TIME_ALL g + GREEN_CARS g)))"
proof -
  from whole obtain gb r' gc where ints0: "GREEN_BIKES g = of_int gb"
    "RED_TIME_ALL g = of_int r'" "GREEN_CARS g = of_int gc"
    by (auto elim!: Ints_cases)
  define c where "c = gc + gb + 2 * r'"
  from parse_cycle[OF p] have cyc: "CYCLE_LENGTH g = of_int c"
    by (simp add: ints0 c_def)
  note ints = ints0 cyc
  from pos have ipos: "0 < gb" "0 < r'" "0 < gc" by (simp_all add: ints0)
  note J = run_light_inv[OF ints ipos c_def r]
  from parse_lane_types[OF p]
  have "\<forall>l\<in>set parsed. lane_type l = CAR \<or> lane_type l = BIKE" by blast
  then have "\<forall>l\<in>set (lanes (Main_setup parsed)). lane_type l = CAR \<or> lane_type l = BIKE"
    by (rule Main_setup_types)
  with run_loop_frame[OF r]
  have ty: "\<forall>l\<in>set (lanes self'). lane_type l = CAR \<or> lane_type l = BIKE"
    using types_map[of "lanes self'" "lanes (Main_setup parsed)"] by blast
  define q where "q = int n mod c"
  have pm: "py_mod (real n) (of_int c) = of_int q"
    using py_mod_of_int[of "int n" c] by (simp add: q_def)
  note J' = J[folded q_def]
  have 1: "\<not> (\<exists>c\<in>set (lanes self'). \<exists>b\<in>set (lanes self').
              lane_type c = CAR \<and> green_light c \<and> lane_type b = BIKE \<and> green_light b)"
  proof
    assume "\<exists>c\<in>set (lanes self'). \<exists>b\<in>set (lanes self').
              lane_type c = CAR \<and> green_light c \<and> lane_type b = BIKE \<and> green_light b"
    then obtain c b where c: "c \<in> set (lanes self')" "lane_type c = CAR" "green_light c"
      and b: "b \<in> set (lanes self')" "lane_type b = BIKE" "green_light b" by blast
    from J' c have "gb + r' \<le> q" by blast
    moreover from J' b have "q < gb" by blast
    ultimately show False using ipos by linarith
  qed
  have 2: "(gb \<le> q \<and> q < gb + r') \<or> (gb + r' + gc \<le> q \<and> q < c)
        \<longrightarrow> (\<forall>l\<in>set (lanes self'). \<not> green_light l)"
  proof (intro impI ballI)
    fix l
    assume ph: "(gb \<le> q \<and> q < gb + r') \<or> (gb + r' + gc \<le> q \<and> q < c)"
      and l: "l \<in> set (lanes self')"
    from ty l consider "lane_type l = CAR" | "lane_type l = BIKE" by blast
    then show "\<not> green_light l"
    proof cases
      case 1
      with J' l have "green_light l = (gb + r' \<le> q \<and> q < gb + r' + gc)" by blast
      with ph ipos show ?thesis by auto
    next
      case 2
      with J' l have "green_light l = (q < gb)" by blast
      with ph ipos show ?thesis by auto
    qed
  qed
  have 3: "\<forall>l\<in>set (lanes self').
          (lane_type l = BIKE \<and> green_light l = (q < gb))
          \<or> (lane_type l = CAR \<and> green_light l = (gb + r' \<le> q \<and> q < gb + r' + gc))"
    using ty J' by blast
  have e: "(of_int gb \<le> (of_int q :: real)) = (gb \<le> q)"
    "((of_int q :: real) < of_int gb + of_int r') = (q < gb + r')"
    "(of_int gb + of_int r' + of_int gc \<le> (of_int q :: real)) = (gb + r' + gc \<le> q)"
    "((of_int q :: real) < of_int c) = (q < c)"
    "((of_int q :: real) < of_int gb) = (q < gb)"
    "(of_int gb + of_int r' \<le> (of_int q :: real)) = (gb + r' \<le> q)"
    "((of_int q :: real) < of_int gb + of_int r' + of_int gc) = (q < gb + r' + gc)"
    using of_int_less_iff[of q "gb + r'", where ?'a = real]
      of_int_le_iff[of "gb + r' + gc" q, where ?'a = real]
      of_int_le_iff[of "gb + r'" q, where ?'a = real]
      of_int_less_iff[of q "gb + r' + gc", where ?'a = real]
    by simp_all
  from 1 2 3 show ?thesis unfolding ints pm e by (intro conjI)
qed

theorem signal_exclusivity_witness:
  "parse module_globals Missing = Inr (module_globals, [])
   \<and> GREEN_BIKES module_globals \<in> \<int> \<and> RED_TIME_ALL module_globals \<in> \<int>
   \<and> GREEN_CARS module_globals \<in> \<int>
   \<and> 0 < GREEN_BIKES module_globals \<and> 0 < RED_TIME_ALL module_globals
   \<and> 0 < GREEN_CARS module_globals
   \<and> GREEN_BIKES module_globals \<le> py_mod (real 10) (CYCLE_LENGTH module_globals)
   \<and> py_mod (real 10) (CYCLE_LENGTH module_globals)
        < GREEN_BIKES module_globals + RED_TIME_ALL module_globals
   \<and> (\<exists>self'. run_loop module_globals (\<lambda>t i. 0) (Suc 10) (Main_setup []) = Inr self'
         \<and> list_all (\<lambda>l. \<not> green_light l) (lanes self'))"
proof -
  have c: "CYCLE_LENGTH module_globals \<noteq> 0" by (simp add: module_globals_def)
  have b: "\<forall>l\<in>set (lanes (Main_setup [])). 0 \<le> business l \<and> business l \<le> POISSON_LAM_MAX"
    by (rule Main_setup_business) simp
  have w: "length (final_row (Main_setup [])) = length (columns (Main_setup []))"
    by (rule Main_setup_width) simp
  from run_loop_ok[OF c b w] obtain self' where
    r: "run_loop module_globals (\<lambda>t i. 0) (Suc 10) (Main_setup []) = Inr self'" by blast
  have p: "parse module_globals Missing = Inr (module_globals, [])" by (rule parse_Missing)
  have whole: "GREEN_BIKES module_globals \<in> \<int>" "RED_TIME_ALL module_globals \<in> \<int>"
    "GREEN_CARS module_globals \<in> \<int>" by (simp_all add: module_globals_def)
  have pos: "0 < GREEN_BIKES module_globals" "0 < RED_TIME_ALL module_globals"
    "0 < GREEN_CARS module_globals" by (simp_all add: module_globals_def)
  have ph: "GREEN_BIKES module_globals \<le> py_mod (real 10) (CYCLE_LENGTH module_globals)"
    "py_mod (real 10) (CYCLE_LENGTH module_globals)
        < GREEN_BIKES module_globals + RED_TIME_ALL module_globals"
    by (simp_all add: module_globals_def py_mod_def)
  from signal_exclusivity[OF p whole pos r] ph
  have "\<forall>l\<in>set (lanes self'). \<not> green_light l" by blast
  then have "list_all (\<lambda>l. \<not> green_light l) (lanes self')" by (simp add: list_all_iff)
  with r have "\<exists>self'. run_loop module_globals (\<lambda>t i. 0) (Suc 10) (Main_setup []) = Inr self'
         \<and> list_all (\<lambda>l. \<not> green_light l) (lanes self')" by blast
  with p whole pos ph show ?thesis by (intro conjI)
qed

section \<open>The run with the built-in constants\<close>

lemma default_run_ok:
  "\<exists>self'. run_loop module_globals d n (Main_setup []) = Inr self'"
proof -
  have c: "CYCLE_LENGTH module_globals \<noteq> 0" by (simp add: module_globals_def)
  have b: "\<forall>l\<in>set (lanes (Main_setup [])). 0 \<le> business l \<and> business l \<le> POISSON_LAM_MAX"
    by (rule Main_setup_business) simp
  have w: "length (final_row (Main_setup [])) = length (columns (Main_setup []))"
    by (rule Main_setup_width) simp
  from run_loop_ok[OF c b w] show ?thesis .
qed

lemma default_lanes_shape:
  assumes r: "run_loop module_globals d n (Main_setup []) = Inr s"
  shows "\<exists>a b c e. lanes s = [a, b, c, e]
           \<and> lane_type a = CAR \<and> lane_type b = CAR \<and> lane_type c = BIKE \<and> lane_type e = BIKE
           \<and> business a = 2 / 5 \<and> business b = 3 / 10 \<and> business c = 1 / 5 \<and> business e = 1 / 10"
proof -
  from run_loop_frame[OF r]
  have t: "map lane_type (lanes s) = [CAR, CAR, BIKE, BIKE]"
    and u: "map business (lanes s) = [2 / 5, 3 / 10, 1 / 5, 1 / 10]"
    by (simp_all add: Main_setup_Nil Lane_init_def)
  from t obtain a b c e where "lanes s = [a, b, c, e]"
    by (auto simp: map_eq_Cons_conv)
  with t u show ?thesis by simp
qed

lemma default_lights:
  assumes r: "run_loop module_globals d (Suc n) (Main_setup []) = Inr s"
  shows "map green_light (bikes s) = [int n mod 60 < 10, int n mod 60 < 10]
       \<and> map green_light (cars s)
           = [20 \<le> int n mod 60 \<and> int n mod 60 < 50, 20 \<le> int n mod 60 \<and> int n mod 60 < 50]
       \<and> map green_light (lanes s)
           = [20 \<le> int n mod 60 \<and> int n mod 60 < 50, 20 \<le> int n mod 60 \<and> int n mod 60 < 50,
              int n mod 60 < 10, int n mod 60 < 10]"
proof -
  have ints: "GREEN_BIKES module_globals = of_int 10" "RED_TIME_ALL module_globals = of_int 10"
    "GREEN_CARS module_globals = of_int 30" "CYCLE_LENGTH module_globals = of_int 60"
    by (simp_all add: module_globals_def)
  have pos: "(0::int) < 10" "(0::int) < 10" "(0::int) < 30" by simp_all
  have cyc: "(60::int) = 30 + 10 + 2 * 10" by simp
  have J: "\<forall>x\<in>set (lanes s).
         (lane_type x = BIKE \<longrightarrow> green_light x = (int n mod 60 < 10))
         \<and> (lane_type x = CAR \<longrightarrow> green_light x = (20 \<le> int n mod 60 \<and> int n mod 60 < 50))"
    using run_light_inv[OF ints pos cyc r] by simp
  from default_lanes_shape[OF r] obtain a b c e where
    l: "lanes s = [a, b, c, e]" and
    t: "lane_type a = CAR" "lane_type b = CAR" "lane_type c = BIKE" "lane_type e = BIKE"
    by blast
  have cb: "CAR \<noteq> BIKE" by (simp add: CAR_def BIKE_def)
  from J l t have g: "green_light a = (20 \<le> int n mod 60 \<and> int n mod 60 < 50)"
    "green_light b = (20 \<le> int n mod 60 \<and> int n mod 60 < 50)"
    "green_light c = (int n mod 60 < 10)" "green_light e = (int n mod 60 < 10)"
    by simp_all
  from l t cb have "bikes s = [c, e]" "cars s = [a, b]"
    by (simp_all add: bikes_def cars_def)
  with l g show ?thesis by simp
qed

text \<open>
  Claim C6. With the module's constants (Bike green 10, all red 10, Car green 30, cycle
  60) and the fallback lanes, for any draws, the run reaches ticks 0, 10, 20, 50 and 60,
  and after the tick the lights are: tick 0, Bike green and Car red; tick 10, both red;
  tick 20, Bike red and Car green; tick 50, both red; tick 60, the lights of tick 0.
\<close>

theorem default_scenario:
  "GREEN_BIKES module_globals = 10 \<and> RED_TIME_ALL module_globals = 10
   \<and> GREEN_CARS module_globals = 30 \<and> CYCLE_LENGTH module_globals = 60
   \<and> (\<exists>s0 s10 s20 s50 s60.
        run_loop module_globals d (Suc 0) (Main_setup []) = Inr s0
      \<and> run_loop module_globals d (Suc 10) (Main_setup []) = Inr s10
      \<and> run_loop module_globals d (Suc 20) (Main_setup []) = Inr s20
      \<and> run_loop module_globals d (Suc 50) (Main_setup []) = Inr s50
      \<and> run_loop module_globals d (Suc 60) (Main_setup []) = Inr s60
      \<and> map green_light (bikes s0) = [True, True] \<and> map green_light (cars s0) = [False, False]
      \<and> map green_light (bikes s10) = [False, False] \<and> map green_light (cars s10) = [False, False]
      \<and> map green_light (bikes s20) = [False, False] \<and> map green_light (cars s20) = [True, True]
      \<and> map green_light (bikes s50) = [False, False] \<and> map green_light (cars s50) = [False, False]
      \<and> map green_light (lanes s60) = map green_light (lanes s0))"
proof -
  obtain s0 where r0: "run_loop module_globals d (Suc 0) (Main_setup []) = Inr s0"
    using default_run_ok by blast
  obtain s10 where r10: "run_loop module_globals d (Suc 10) (Main_setup []) = Inr s10"
    using default_run_ok by blast
  obtain s20 where r20: "run_loop module_globals d (Suc 20) (Main_setup []) = Inr s20"
    using default_run_ok by blast
  obtain s50 where r50: "run_loop module_globals d (Suc 50) (Main_setup []) = Inr s50"
    using default_run_ok by blast
  obtain s60 where r60: "run_loop module_globals d (Suc 60) (Main_setup []) = Inr s60"
    using default_run_ok by blast
  have k: "GREEN_BIKES module_globals = 10 \<and> RED_TIME_ALL module_globals = 10
   \<and> GREEN_CARS module_globals = 30 \<and> CYCLE_LENGTH module_globals = 60"
    by (simp add: module_globals_def)
  from default_lights[OF r0] have l0: "map green_light (bikes s0) = [True, True]"
    "map green_light (cars s0) = [False, False]"
    "map green_light (lanes s0) = [False, False, True, True]" by simp_all
  from default_lights[OF r10] have l10: "map green_light (bikes s10) = [False, False]"
    "map green_light (cars s10) = [False, False]" by simp_all
  from default_lights[OF r20] have l20: "map green_light (bikes s20) = [False, False]"
    "map green_light (cars s20) = [True, True]" by simp_all
  from default_lights[OF r50] have l50: "map green_light (bikes s50) = [False, False]"
    "map green_light (cars s50) = [False, False]" by simp_all
  from default_lights[OF r60] have l60: "map green_light (lanes s60) = [False, False, True, True]"
    by simp
  from l0(3) l60 have e: "map green_light (lanes s60) = map green_light (lanes s0)" by simp
  from r0 r10 r20 r50 r60 l0(1,2) l10 l20 l50 e
  have "\<exists>s0 s10 s20 s50 s60.
        run_loop module_globals d (Suc 0) (Main_setup []) = Inr s0
      \<and> run_loop module_globals d (Suc 10) (Main_setup []) = Inr s10
      \<and> run_loop module_globals d (Suc 20) (Main_setup []) = Inr s20
      \<and> run_loop module_globals d (Suc 50) (Main_setup []) = Inr s50
      \<and> run_loop module_globals d (Suc 60) (Main_setup []) = Inr s60
      \<and> map green_light (bikes s0) = [True, True] \<and> map green_light (cars s0) = [False, False]
      \<and> map green_light (bikes s10) = [False, False] \<and> map green_light (cars s10) = [False, False]
      \<and> map green_light (bikes s20) = [False, False] \<and> map green_light (cars s20) = [True, True]
      \<and> map green_light (bikes s50) = [False, False] \<and> map green_light (cars s50) = [False, False]
      \<and> map green_light (lanes s60) = map green_light (lanes s0)"
    by (intro exI[of _ s0] exI[of _ s10] exI[of _ s20] exI[of _ s50] exI[of _ s60] conjI)
  with k show ?thesis by (intro conjI) (simp_all only:)
qed

theorem default_scenario_witness:
  "\<exists>s0 s10 s20 s50 s60.
        run_loop module_globals (\<lambda>t i. 0) (Suc 0) (Main_setup []) = Inr s0
      \<and> run_loop module_globals (\<lambda>t i. 0) (Suc 10) (Main_setup []) = Inr s10
      \<and> run_loop module_globals (\<lambda>t i. 0) (Suc 20) (Main_setup []) = Inr s20
      \<and> run_loop module_globals (\<lambda>t i. 0) (Suc 50) (Main_setup []) = Inr s50
      \<and> run_loop module_globals (\<lambda>t i. 0) (Suc 60) (Main_setup []) = Inr s60
      \<and> map green_light (bikes s0) = [True, True] \<and> map green_light (cars s0) = [False, False]
      \<and> map green_light (bikes s10) = [False, False] \<and> map green_light (cars s10) = [False, False]
      \<and> map green_light (bikes s20) = [False, False] \<and> map green_light (cars s20) = [True, True]
      \<and> map green_light (bikes s50) = [False, False] \<and> map green_light (cars s50) = [False, False]
      \<and> map green_light (lanes s60) = map green_light (lanes s0)"
  using default_scenario[of "\<lambda>t i. 0"] by (elim conjE)

text \<open>
  When the configuration file is missing, or the decoder raises \<^verbatim>\<open>JSONDecodeError\<close>,
  \<open>Main_init\<close> returns for any draws: the constants are the built-in ones (30, 10, 10 and
  0.1), the lanes are two Car lanes and two Bike lanes with the preset rates, and the data
  frame has exactly 360 rows, labelled 0 to 359, each of six cells. (\<open>3600 * 0.1\<close> is
  exactly 360.0 in binary floating point too; the preset rates are the real numbers next to
  the floats the source computes.)
\<close>

lemma fallback_run:
  "\<exists>self. Main_init Missing d = Inr (module_globals, self)
      \<and> Main_init Malformed d = Inr (module_globals, self)
      \<and> GREEN_CARS module_globals = 30 \<and> GREEN_BIKES module_globals = 10
      \<and> RED_TIME_ALL module_globals = 10 \<and> SIM_LENGTH module_globals = 1 / 10
      \<and> map lane_type (lanes self) = [CAR, CAR, BIKE, BIKE]
      \<and> map business (lanes self) = [2 / 5, 3 / 10, 1 / 5, 1 / 10]
      \<and> length (traffic_data self) = 360
      \<and> map fst (traffic_data self) = map int [0..<360]
      \<and> list_all (\<lambda>row. length (snd row) = 6) (traffic_data self)"
proof -
  obtain self where r: "run_loop module_globals d 360 (Main_setup []) = Inr self"
    using default_run_ok by blast
  have m1: "Main_init Missing d = Inr (module_globals, self)"
    by (simp add: Main_init_def parse_Missing loop_count_default r)
  have m2: "Main_init Malformed d = Inr (module_globals, self)"
    by (simp add: Main_init_def parse_Missing loop_count_default r)
  have k: "GREEN_CARS module_globals = 30" "GREEN_BIKES module_globals = 10"
    "RED_TIME_ALL module_globals = 10" "SIM_LENGTH module_globals = 1 / 10"
    by (simp_all add: module_globals_def)
  from run_loop_frame[OF r]
  have t: "map lane_type (lanes self) = [CAR, CAR, BIKE, BIKE]"
    and u: "map business (lanes self) = [2 / 5, 3 / 10, 1 / 5, 1 / 10]"
    by (simp_all add: Main_setup_Nil Lane_init_def)
  from run_loop_rows[OF Main_setup_rows r]
  have f: "map fst (traffic_data self) = map int [0..<360]"
    and w: "\<forall>row\<in>set (map snd (traffic_data self)). length row = length (columns (Main_setup []))"
    by blast+
  from f have "length (map fst (traffic_data self)) = length (map int [0..<360])" by (simp only:)
  then have n: "length (traffic_data self) = 360" by simp
  from w have a: "list_all (\<lambda>row. length (snd row) = 6) (traffic_data self)"
    by (simp add: list_all_iff Main_setup_Nil)
  from m1 m2 k t u n f a show ?thesis
    by (intro exI[of _ self] conjI)
qed

text \<open>
  Claim C8 does not hold of the code for every configuration source that cannot be parsed.
  The source catches \<^verbatim>\<open>JSONDecodeError\<close> only. A file that is not text in the
  expected encoding makes \<^verbatim>\<open>json.load\<close> raise \<^verbatim>\<open>UnicodeDecodeError\<close>, and a path that cannot
  be opened makes \<^verbatim>\<open>open\<close> raise \<^verbatim>\<open>OSError\<close>; the exception leaves \<open>parse\<close> and
  \<open>Main_init\<close>, for any draws, and there is no fallback and no row.
\<close>

theorem unreadable_config_raises:
  "parse module_globals (Failing e) = Inl e
   \<and> Main_init (Failing e) d = Inl e
   \<and> Main_init (Failing UnicodeDecodeError) d = Inl UnicodeDecodeError
   \<and> Main_init (Failing OSError) d = Inl OSError"
  by (simp add: Main_init_def parse_def)

section \<open>When every tick completes\<close>





text \<open>
  A parsed lane list without a lane of one class is outside the amended claim. There
  \<open>add_row\<close> leaves the light of the absent class out of the row while the columns were
  built with it, and the assignment of the row raises in the first tick:
\<close>

lemma one_class_row_mismatch:
  "parse module_globals
     (Loaded \<lparr>j_GREEN_CARS = None, j_GREEN_BIKES = None, j_RED_TIME_ALL = None,
              j_SIM_LENGTH = None,
              j_lanes = Some [\<lparr>j_type = Some ''car'', j_business = Some 1\<rparr>]\<rparr>)
     = Inr (module_globals, [Lane_init CAR 1])
   \<and> length (columns (Main_setup [Lane_init CAR 1])) = 3
   \<and> final_row (Main_setup [Lane_init CAR 1]) = [Light False, Count 0]
   \<and> loop module_globals (\<lambda>i. 0) 0 (Main_setup [Lane_init CAR 1]) = Inl ValueError"
  by (simp add: parse_def Let_def module_globals_def Lane_init_def loop_def loop_lights_def
      py_mod_def Main_setup_def update_vehicle_number_def poisson_def POISSON_LAM_MAX_def
      CAR_def BIKE_def add_row_def final_row_def bikes_def cars_def loc_setitem_def
      numbered_length)

end
